theory Spec2Isabelle
  imports Main
begin

section \<open>Values of the platform\<close>

text \<open>
  The five serverless handlers (\<^verbatim>\<open>supabase/functions/ai-*/index.ts\<close>) run on a JavaScript
  platform. Its values are modelled as far as the handlers look at them.

  A JSON value is what \<^verbatim>\<open>JSON.parse\<close> returns and what \<^verbatim>\<open>JSON.stringify\<close> takes. The
  handlers never compute with a number: they test one for being falsy and pass it on, and they
  write the literal \<^verbatim>\<open>50\<close>. The number type is therefore left open (\<open>'n\<close>). An object is
  the list of its properties in insertion order. \<^verbatim>\<open>undefined\<close> is \<open>None\<close> of
  \<open>'n json option\<close>.

  A string is the list of its UTF-8 bytes. The braces the handlers search for are ASCII, and no
  byte of a multi-byte UTF-8 sequence equals an ASCII byte, so a search for a brace finds the
  same places in the bytes as in the platform's UTF-16 code units.
\<close>

datatype 'n json =
    JNull
  | JBool bool
  | JNum 'n
  | JStr string
  | JArr "'n json list"
  | JObj "(string \<times> 'n json) list"

text \<open>
  A thrown \<^verbatim>\<open>Error\<close> (also \<^verbatim>\<open>TypeError\<close>, \<^verbatim>\<open>SyntaxError\<close>): the handlers read only its
  \<^verbatim>\<open>message\<close>. A computation that may throw returns \<open>js_error + 'a\<close>.
\<close>

datatype js_error = Error (error_message: string)

text \<open>Falsy values: \<^verbatim>\<open>undefined\<close>, \<^verbatim>\<open>null\<close>, \<^verbatim>\<open>false\<close>, \<^verbatim>\<open>0\<close> and the empty string.\<close>

fun js_falsy :: "('n::zero) json option \<Rightarrow> bool" where
  "js_falsy None = True"
| "js_falsy (Some JNull) = True"
| "js_falsy (Some (JBool b)) = (b = False)"
| "js_falsy (Some (JNum n)) = (n = 0)"
| "js_falsy (Some (JStr s)) = (s = [])"
| "js_falsy (Some (JArr xs)) = False"
| "js_falsy (Some (JObj kv)) = False"

text \<open>
  Reading the property \<open>k\<close> of a value that is neither \<^verbatim>\<open>null\<close> nor \<^verbatim>\<open>undefined\<close>, for the
  names the handlers read (\<^verbatim>\<open>choices\<close>, \<^verbatim>\<open>message\<close>, \<^verbatim>\<open>content\<close>): only an object has one.
  Reading index \<^verbatim>\<open>[0]\<close>: the first element of an array, the property \<^verbatim>\<open>"0"\<close> of an object,
  the first unit of a string.
\<close>

fun get_prop :: "'n json \<Rightarrow> string \<Rightarrow> 'n json option" where
  "get_prop (JObj kv) k = map_of kv k"
| "get_prop v k = None"

fun get_index0 :: "'n json \<Rightarrow> 'n json option" where
  "get_index0 (JArr []) = None"
| "get_index0 (JArr (x # xs)) = Some x"
| "get_index0 (JObj kv) = map_of kv ''0''"
| "get_index0 (JStr []) = None"
| "get_index0 (JStr (c # cs)) = Some (JStr [c])"
| "get_index0 v = None"

text \<open>Optional chaining \<^verbatim>\<open>a?.b\<close>: \<^verbatim>\<open>undefined\<close> when \<^verbatim>\<open>a\<close> is \<^verbatim>\<open>null\<close> or \<^verbatim>\<open>undefined\<close>.\<close>

fun opt_chain :: "'n json option \<Rightarrow> ('n json \<Rightarrow> 'n json option) \<Rightarrow> 'n json option" where
  "opt_chain None f = None"
| "opt_chain (Some JNull) f = None"
| "opt_chain (Some v) f = f v"

text \<open>\<^verbatim>\<open>Array.prototype.join\<close> on strings; also used to write a template literal line by line.\<close>

fun js_join :: "string \<Rightarrow> string list \<Rightarrow> string" where
  "js_join sep [] = []"
| "js_join sep [x] = x"
| "js_join sep (x # y # ys) = x @ sep @ js_join sep (y # ys)"

definition nl :: string where
  "nl = [CHR 0x0A]"

definition template_lines :: "string list \<Rightarrow> string" where
  "template_lines ls = js_join nl ls"

text \<open>A number in a template literal (\<^verbatim>\<open>${response.status}\<close>, \<^verbatim>\<open>${idx + 1}\<close>): its decimal digits.\<close>

definition digit_char :: "nat \<Rightarrow> char" where
  "digit_char d = ''0123456789'' ! d"

function show_nat :: "nat \<Rightarrow> string" where
  "show_nat n = (if n < 10 then [digit_char n] else show_nat (n div 10) @ [digit_char (n mod 10)])"
  by pat_completeness auto
termination
  by (relation "measure id") auto

declare show_nat.simps [simp del]

text \<open>\<^verbatim>\<open>String.prototype.includes\<close>: does \<open>s\<close> contain \<open>sub\<close> as a contiguous part.\<close>

fun js_includes :: "string \<Rightarrow> string \<Rightarrow> bool" where
  "js_includes [] sub = (sub = [])"
| "js_includes (c # cs) sub = (if take (length sub) (c # cs) = sub then True else js_includes cs sub)"

section \<open>Response Extractor\<close>

text \<open>
  \<^verbatim>\<open>content.match(/\{[\s\S]*\}/)\<close>: the regular expression has no \<^verbatim>\<open>g\<close> flag, so the result is
  the leftmost match, and \<^verbatim>\<open>*\<close> is greedy over any character: the match starts at the first
  \<^verbatim>\<open>{\<close> and ends at the last \<^verbatim>\<open>}\<close> after it. \<open>None\<close> is \<^verbatim>\<open>null\<close>, \<open>Some m\<close> is a match
  array with \<^verbatim>\<open>jsonMatch[0] = m\<close>.
\<close>

definition match_braces :: "string \<Rightarrow> string option" where
  "match_braces s =
     (let t = dropWhile (\<lambda>c. c \<noteq> CHR ''{'') s
      in if CHR ''}'' \<in> set t
         then Some (rev (dropWhile (\<lambda>c. c \<noteq> CHR ''}'') (rev t)))
         else None)"

text \<open>
  The body of the inner \<^verbatim>\<open>try\<close>, shared by the five handlers up to the object of the
  no-match branch:
  \<^verbatim>\<open>
    const jsonMatch = content.match(/\{[\s\S]*\}/);
    result = jsonMatch ? JSON.parse(jsonMatch[0]) : <no-match object>;
  \<close>
  \<open>content\<close> is \<^verbatim>\<open>data.choices?.[0]?.message?.content || ""\<close>, so it need not be a string;
  a value that is not a string has no \<^verbatim>\<open>match\<close> method and the call throws a TypeError.
  \<open>P\<close> is the platform's \<^verbatim>\<open>JSON.parse\<close>.
\<close>

definition try_extract ::
  "(string \<Rightarrow> js_error + 'n json) \<Rightarrow> ('n json \<Rightarrow> 'n json) \<Rightarrow> 'n json \<Rightarrow> js_error + 'n json" where
  "try_extract P no_match content =
     (case content of
        JStr s \<Rightarrow>
          (case match_braces s of
             None \<Rightarrow> Inr (no_match content)
           | Some m \<Rightarrow> P m)
      | _ \<Rightarrow> Inl (Error ''content.match is not a function''))"

text \<open>
  The whole statement \<^verbatim>\<open>try { ... } catch { result = <catch object>; }\<close>: whatever the body
  throws is dropped and the catch object is the result.
\<close>

definition extract_result ::
  "(string \<Rightarrow> js_error + 'n json) \<Rightarrow> ('n json \<Rightarrow> 'n json) \<Rightarrow> ('n json \<Rightarrow> 'n json) \<Rightarrow> 'n json \<Rightarrow> 'n json" where
  "extract_result P no_match on_catch content =
     (case try_extract P no_match content of
        Inl e \<Rightarrow> on_catch content
      | Inr j \<Rightarrow> j)"

subsection \<open>The objects of the no-match and catch branches, per handler\<close>

text \<open>ai-support-chat: \<^verbatim>\<open>{ reply: content, shouldEscalate: false }\<close> in both branches.\<close>

definition support_fallback :: "'n json \<Rightarrow> 'n json" where
  "support_fallback content = JObj [(''reply'', content), (''shouldEscalate'', JBool False)]"

text \<open>ai-habit-insights: \<^verbatim>\<open>{ insights: [{ type: "suggestion", message: content }] }\<close> in both branches.\<close>

definition habit_fallback :: "'n json \<Rightarrow> 'n json" where
  "habit_fallback content =
     JObj [(''insights'', JArr [JObj [(''type'', JStr ''suggestion''), (''message'', content)]])]"

text \<open>ai-knowledge-query: \<^verbatim>\<open>{ answer: content, citations: [], confidence: "medium" }\<close> in both branches.\<close>

definition knowledge_fallback :: "'n json \<Rightarrow> 'n json" where
  "knowledge_fallback content =
     JObj [(''answer'', content), (''citations'', JArr []), (''confidence'', JStr ''medium'')]"

text \<open>
  ai-ats-optimizer: the no-match branch is \<^verbatim>\<open>{ score: 50, suggestions: [] }\<close>, the catch branch
  is \<^verbatim>\<open>{ score: 50, suggestions: [], rawAnalysis: content }\<close>.
\<close>

definition ats_no_match :: "('n::numeral) json \<Rightarrow> 'n json" where
  "ats_no_match content = JObj [(''score'', JNum 50), (''suggestions'', JArr [])]"

definition ats_catch :: "('n::numeral) json \<Rightarrow> 'n json" where
  "ats_catch content =
     JObj [(''score'', JNum 50), (''suggestions'', JArr []), (''rawAnalysis'', content)]"

text \<open>ai-job-assistant: \<^verbatim>\<open>{ bullets: [], coverLetter: content, summary: "" }\<close> in both branches.\<close>

definition job_fallback :: "'n json \<Rightarrow> 'n json" where
  "job_fallback content =
     JObj [(''bullets'', JArr []), (''coverLetter'', content), (''summary'', JStr [])]"

definition support_extract :: "(string \<Rightarrow> js_error + 'n json) \<Rightarrow> 'n json \<Rightarrow> 'n json" where
  "support_extract P = extract_result P support_fallback support_fallback"

definition habit_extract :: "(string \<Rightarrow> js_error + 'n json) \<Rightarrow> 'n json \<Rightarrow> 'n json" where
  "habit_extract P = extract_result P habit_fallback habit_fallback"

definition knowledge_extract :: "(string \<Rightarrow> js_error + 'n json) \<Rightarrow> 'n json \<Rightarrow> 'n json" where
  "knowledge_extract P = extract_result P knowledge_fallback knowledge_fallback"

definition ats_extract :: "(string \<Rightarrow> js_error + ('n::numeral) json) \<Rightarrow> 'n json \<Rightarrow> 'n json" where
  "ats_extract P = extract_result P ats_no_match ats_catch"

definition job_extract :: "(string \<Rightarrow> js_error + 'n json) \<Rightarrow> 'n json \<Rightarrow> 'n json" where
  "job_extract P = extract_result P job_fallback job_fallback"

section \<open>Requests, responses and the gateway\<close>

text \<open>
  \<^verbatim>\<open>new Response(body, { status, headers })\<close>. A body \<^verbatim>\<open>JSON.stringify(v)\<close> is kept as the
  value \<open>v\<close> it serialises; \<open>None\<close> is the \<^verbatim>\<open>null\<close> body. The status is 200 when the
  handler gives none.
\<close>

record 'n response =
  status :: nat
  headers :: "(string \<times> string) list"
  body :: "'n json option"

text \<open>
  What a handler reads of the incoming request: \<^verbatim>\<open>req.method\<close>, and the outcome of
  \<^verbatim>\<open>const { ... } = await req.json()\<close>, which throws when the body is not JSON (or is
  \<^verbatim>\<open>null\<close>) and otherwise gives the fields \<open>'i\<close> of the feature, with the types the client
  screens send.
\<close>

record 'i request =
  req_method :: string
  req_json :: "js_error + 'i"

text \<open>
  The outbound call \<^verbatim>\<open>fetch(url, { method, headers, body: JSON.stringify(v) })\<close> and its
  outcome: the promise rejects with an error, or resolves to a response of which the handler
  reads \<^verbatim>\<open>status\<close> and the body text.
\<close>

record 'n fetch_request =
  url :: string
  fetch_method :: string
  fetch_headers :: "(string \<times> string) list"
  fetch_body :: "'n json"

datatype fetch_result = FetchError js_error | FetchResponse nat string

text \<open>
  The platform a handler runs on: \<^verbatim>\<open>Deno.env.get("LOVABLE_API_KEY")\<close>, \<^verbatim>\<open>JSON.parse\<close>
  (also behind \<^verbatim>\<open>response.json()\<close>) and \<^verbatim>\<open>fetch\<close>.
\<close>

record 'n platform =
  env_LOVABLE_API_KEY :: "string option"
  JSON_parse :: "string \<Rightarrow> js_error + 'n json"
  fetch :: "'n fetch_request \<Rightarrow> fetch_result"

definition corsHeaders :: "(string \<times> string) list" where
  "corsHeaders =
     [(''Access-Control-Allow-Origin'', ''*''),
      (''Access-Control-Allow-Headers'', ''authorization, x-client-info, apikey, content-type'')]"

text \<open>\<^verbatim>\<open>new Response(null, { headers: corsHeaders })\<close>\<close>

definition preflight_response :: "'n response" where
  "preflight_response = \<lparr>status = 200, headers = corsHeaders, body = None\<rparr>"

text \<open>
  \<^verbatim>\<open>new Response(JSON.stringify(v), { status: st, headers: { ...corsHeaders, "Content-Type": "application/json" } })\<close>
\<close>

definition json_response :: "nat \<Rightarrow> 'n json \<Rightarrow> 'n response" where
  "json_response st v =
     \<lparr>status = st, headers = corsHeaders @ [(''Content-Type'', ''application/json'')], body = Some v\<rparr>"

definition error_response :: "nat \<Rightarrow> string \<Rightarrow> 'n response" where
  "error_response st msg = json_response st (JObj [(''error'', JStr msg)])"

text \<open>\<^verbatim>\<open>response.ok\<close>: the status is in the range 200 to 299.\<close>

definition response_ok :: "nat \<Rightarrow> bool" where
  "response_ok st = (200 \<le> st \<and> st \<le> 299)"

text \<open>\<^verbatim>\<open>{ role: r, content: c }\<close>, an entry of the \<^verbatim>\<open>messages\<close> array.\<close>

definition chat_entry :: "string \<Rightarrow> string \<Rightarrow> 'n json" where
  "chat_entry r c = JObj [(''role'', JStr r), (''content'', JStr c)]"

text \<open>The call every handler makes, for its \<^verbatim>\<open>messages\<close> array.\<close>

definition gateway_request :: "string \<Rightarrow> 'n json list \<Rightarrow> 'n fetch_request" where
  "gateway_request key messages =
     \<lparr>url = ''https://ai.gateway.lovable.dev/v1/chat/completions'',
      fetch_method = ''POST'',
      fetch_headers = [(''Authorization'', ''Bearer '' @ key), (''Content-Type'', ''application/json'')],
      fetch_body = JObj [(''model'', JStr ''google/gemini-2.5-flash''), (''messages'', JArr messages)]\<rparr>"

text \<open>
  \<^verbatim>\<open>data.choices?.[0]?.message?.content || ""\<close>. \<open>data\<close> comes from \<^verbatim>\<open>JSON.parse\<close>, so it is
  never \<^verbatim>\<open>undefined\<close>; reading \<^verbatim>\<open>choices\<close> of \<^verbatim>\<open>null\<close> throws a TypeError, which no
  \<^verbatim>\<open>?.\<close> guards.
\<close>

definition content_chain :: "'n json \<Rightarrow> js_error + 'n json option" where
  \<open>content_chain data =
     (case data of
        JNull \<Rightarrow> Inl (Error ''Cannot read properties of null (reading 'choices')'')
      | _ \<Rightarrow>
          Inr (opt_chain
                 (opt_chain
                    (opt_chain (get_prop data ''choices'') get_index0)
                    (\<lambda>c. get_prop c ''message''))
                 (\<lambda>m. get_prop m ''content'')))\<close>

definition or_empty :: "('n::zero) json option \<Rightarrow> 'n json" where
  "or_empty v = (if js_falsy v then JStr [] else the v)"

definition completion_content :: "('n::zero) json \<Rightarrow> js_error + 'n json" where
  "completion_content data =
     (case content_chain data of
        Inl e \<Rightarrow> Inl e
      | Inr v \<Rightarrow> Inr (or_empty v))"

section \<open>Request Handler\<close>

text \<open>
  The five handlers are the same text up to three parts: the \<^verbatim>\<open>messages\<close> array built from
  the request (\<open>build\<close>), the statuses of the gateway answered by a fixed message (\<open>mapped\<close>,
  the chain of \<^verbatim>\<open>if (response.status === ...)\<close> in order), and the objects of the extraction
  step (\<open>extract\<close>). \<^verbatim>\<open>console.log\<close> and \<^verbatim>\<open>console.error\<close> are left out.

  \<open>handler_try\<close> is the body of the outer \<^verbatim>\<open>try\<close>: it returns the response or the error
  thrown, with the calls made to the gateway. The text of an error response of the gateway
  (\<^verbatim>\<open>await response.text()\<close>) is only logged.
\<close>

definition handler_try ::
  "('i \<Rightarrow> 'n json list) \<Rightarrow> (nat \<times> string) list \<Rightarrow>
   ((string \<Rightarrow> js_error + 'n json) \<Rightarrow> 'n json \<Rightarrow> 'n json) \<Rightarrow>
   ('n::zero) platform \<Rightarrow> 'i request \<Rightarrow> (js_error + 'n response) \<times> 'n fetch_request list" where
  "handler_try build mapped extract pf req =
     (case req_json req of
        Inl e \<Rightarrow> (Inl e, [])
      | Inr inp \<Rightarrow>
          (case env_LOVABLE_API_KEY pf of
             None \<Rightarrow> (Inl (Error ''LOVABLE_API_KEY is not configured''), [])
           | Some key \<Rightarrow>
               if key = [] then (Inl (Error ''LOVABLE_API_KEY is not configured''), [])
               else
                 let call = gateway_request key (build inp)
                 in (case fetch pf call of
                       FetchError e \<Rightarrow> (Inl e, [call])
                     | FetchResponse st raw \<Rightarrow>
                         if \<not> response_ok st then
                           (case map_of mapped st of
                              Some msg \<Rightarrow> (Inr (error_response st msg), [call])
                            | None \<Rightarrow> (Inl (Error (''AI gateway error: '' @ show_nat st)), [call]))
                         else
                           (case JSON_parse pf raw of
                              Inl e \<Rightarrow> (Inl e, [call])
                            | Inr data \<Rightarrow>
                                (case completion_content data of
                                   Inl e \<Rightarrow> (Inl e, [call])
                                 | Inr content \<Rightarrow>
                                     (Inr (json_response 200 (extract (JSON_parse pf) content)), [call]))))))"

text \<open>
  The function given to \<^verbatim>\<open>serve\<close>: the pre-flight branch, then the \<^verbatim>\<open>try\<close> with its
  \<^verbatim>\<open>catch\<close>, which answers 500 with the message of the error. Everything thrown inside the
  \<^verbatim>\<open>try\<close> is an \<^verbatim>\<open>Error\<close>, so the branch \<^verbatim>\<open>"Unknown error"\<close> is never taken.
\<close>

definition serve_handler ::
  "('i \<Rightarrow> 'n json list) \<Rightarrow> (nat \<times> string) list \<Rightarrow>
   ((string \<Rightarrow> js_error + 'n json) \<Rightarrow> 'n json \<Rightarrow> 'n json) \<Rightarrow>
   ('n::zero) platform \<Rightarrow> 'i request \<Rightarrow> 'n response \<times> 'n fetch_request list" where
  "serve_handler build mapped extract pf req =
     (if req_method req = ''OPTIONS'' then (preflight_response, [])
      else
        (case handler_try build mapped extract pf req of
           (Inl e, calls) \<Rightarrow> (error_response 500 (error_message e), calls)
         | (Inr r, calls) \<Rightarrow> (r, calls)))"

definition rate_limit_only :: "(nat \<times> string) list" where
  "rate_limit_only = [(429, ''Rate limit exceeded. Please try again later.'')]"

definition rate_limit_and_credits :: "(nat \<times> string) list" where
  "rate_limit_and_credits =
     [(429, ''Rate limit exceeded. Please try again later.''),
      (402, ''AI credits exhausted. Please add funds.'')]"

section \<open>Prompt Builder and the five handlers\<close>

subsection \<open>ai-habit-insights\<close>

record habit =
  name :: string
  frequency :: string

record habit_log =
  habit_name :: string
  logged_at :: string
  completed :: bool
  log_notes :: "string option"

record habit_input =
  habits :: "habit list"
  logs :: "habit_log list"

definition habit_systemPrompt :: "string" where
  \<open>habit_systemPrompt =
     template_lines
       [''You are a supportive habit tracking coach. Analyze the user's habit data and provide personalized, actionable insights.'',
        [],
        ''Be encouraging but honest. Identify patterns, suggest improvements, and celebrate wins.'',
        [],
        ''Provide 2-4 specific insights in JSON format:'',
        ''{'',
        ''  "insights": ['',
        ''    {'',
        ''      "type": "pattern" | "suggestion" | "encouragement",'',
        ''      "message": "Your insight here"'',
        ''    }'',
        ''  ],'',
        ''  "overallScore": 0-100,'',
        ''  "topPerformingHabit": "habit name or null",'',
        ''  "needsAttention": "habit name or null"'',
        ''}'']\<close>

text \<open>The check mark and the ballot cross of the log lines, in UTF-8.\<close>

definition check_mark :: string where
  "check_mark = [CHR 0xE2, CHR 0x9C, CHR 0x93]"

definition ballot_x :: string where
  "ballot_x = [CHR 0xE2, CHR 0x9C, CHR 0x97]"

definition habitsInfo_of :: "habit list \<Rightarrow> string" where
  "habitsInfo_of hs = js_join nl (map (\<lambda>h. ''- '' @ name h @ '' ('' @ frequency h @ '')'') hs)"

definition logsInfo_of :: "habit_log list \<Rightarrow> string" where
  \<open>logsInfo_of ls =
     js_join nl
       (map (\<lambda>l. habit_name l @ '' on '' @ logged_at l @ '': ''
                  @ (if completed l then check_mark @ '' Completed'' else ballot_x @ '' Missed'')
                  @ (case log_notes l of
                       None \<Rightarrow> []
                     | Some n \<Rightarrow> if n = [] then [] else '' - "'' @ n @ ''"''))
            ls)\<close>

definition habit_userPrompt :: "string \<Rightarrow> string \<Rightarrow> string" where
  \<open>habit_userPrompt habitsInfo logsInfo =
     template_lines
       [''Analyze these habit tracking patterns:'',
        [],
        ''Habits being tracked:'',
        habitsInfo,
        [],
        ''Recent activity (last 14 days):'',
        (if logsInfo = [] then ''No logs yet'' else logsInfo),
        [],
        ''Provide personalized insights.'']\<close>

definition habit_messages :: "habit_input \<Rightarrow> 'n json list" where
  "habit_messages inp =
     [chat_entry ''system'' habit_systemPrompt,
      chat_entry ''user'' (habit_userPrompt (habitsInfo_of (habits inp)) (logsInfo_of (logs inp)))]"

definition ai_habit_insights ::
  "('n::zero) platform \<Rightarrow> habit_input request \<Rightarrow> 'n response \<times> 'n fetch_request list" where
  "ai_habit_insights = serve_handler habit_messages rate_limit_only habit_extract"

subsection \<open>ai-ats-optimizer\<close>

definition ats_systemPrompt :: "string" where
  \<open>ats_systemPrompt =
     template_lines
       [''You are an ATS (Applicant Tracking System) expert. Analyze resumes for ATS compatibility and provide optimization suggestions.'',
        [],
        ''Evaluate:'',
        ''1. Keyword optimization for the target role'',
        ''2. Formatting and structure'',
        ''3. Quantifiable achievements'',
        ''4. Skills alignment'',
        [],
        ''Respond in JSON format:'',
        ''{'',
        ''  "score": 0-100,'',
        ''  "missingKeywords": ["keyword1", "keyword2"],'',
        ''  "weakSections": ["section1", "section2"],'',
        ''  "suggestions": ['',
        ''    {'',
        ''      "category": "keywords" | "format" | "content" | "structure",'',
        ''      "priority": "high" | "medium" | "low",'',
        ''      "suggestion": "specific suggestion"'',
        ''    }'',
        ''  ],'',
        ''  "optimizedSummary": "An ATS-optimized professional summary",'',
        ''  "optimizedBullets": ["optimized bullet 1", "optimized bullet 2"]'',
        ''}'']\<close>

definition ats_userPrompt :: "string \<Rightarrow> string \<Rightarrow> string" where
  \<open>ats_userPrompt targetRole resumeContent =
     template_lines
       [''Analyze this resume for the role: '' @ targetRole,
        [],
        ''Resume Content:'',
        resumeContent,
        [],
        ''Provide ATS analysis and optimization suggestions.'']\<close>

record ats_input =
  ats_resumeContent :: string
  targetRole :: string

definition ats_messages :: "ats_input \<Rightarrow> 'n json list" where
  "ats_messages inp =
     [chat_entry ''system'' ats_systemPrompt,
      chat_entry ''user'' (ats_userPrompt (targetRole inp) (ats_resumeContent inp))]"

definition ai_ats_optimizer ::
  "('n::{zero,numeral}) platform \<Rightarrow> ats_input request \<Rightarrow> 'n response \<times> 'n fetch_request list" where
  "ai_ats_optimizer = serve_handler ats_messages rate_limit_only ats_extract"

subsection \<open>ai-support-chat\<close>

record chat_message =
  msg_role :: string
  msg_content :: string

record kb_entry =
  kb_title :: string
  kb_content :: string

record support_input =
  message :: string
  conversationHistory :: "chat_message list option"
  knowledgeBase :: "kb_entry list option"

text \<open>
  \<^verbatim>\<open>knowledgeBase?.length ? `\nKnowledge Base:\n${knowledgeBase.map(...).join('\n')}` : ''\<close>
\<close>

definition kbContext_of :: "kb_entry list option \<Rightarrow> string" where
  "kbContext_of kbo =
     (case kbo of
        None \<Rightarrow> []
      | Some kbs \<Rightarrow>
          if length kbs = 0 then []
          else nl @ ''Knowledge Base:'' @ nl
               @ js_join nl (map (\<lambda>kb. ''- '' @ kb_title kb @ '': '' @ kb_content kb) kbs))"

definition support_systemPrompt :: "string \<Rightarrow> string" where
  \<open>support_systemPrompt kbContext =
     template_lines
       [''You are a helpful, professional customer support agent. Your goal is to:'',
        ''1. Answer questions accurately using the provided knowledge base'',
        ''2. Be friendly and empathetic'',
        ''3. Escalate to a human when you cannot help'',
        ''4. Create tickets for complex issues'',
        [],
        kbContext,
        [],
        ''If you cannot answer from the knowledge base, politely say so and offer to escalate.'',
        [],
        ''Respond in JSON format:'',
        ''{'',
        ''  "reply": "Your response to the customer",'',
        ''  "shouldEscalate": false,'',
        ''  "suggestedTicketPriority": "low" | "medium" | "high" | null,'',
        ''  "sentiment": "positive" | "neutral" | "negative"'',
        ''}'']\<close>

definition support_messages :: "support_input \<Rightarrow> 'n json list" where
  "support_messages inp =
     [chat_entry ''system'' (support_systemPrompt (kbContext_of (knowledgeBase inp)))]
     @ map (\<lambda>msg. chat_entry (msg_role msg) (msg_content msg))
           (case conversationHistory inp of None \<Rightarrow> [] | Some h \<Rightarrow> h)
     @ [chat_entry ''user'' (message inp)]"

definition ai_support_chat ::
  "('n::zero) platform \<Rightarrow> support_input request \<Rightarrow> 'n response \<times> 'n fetch_request list" where
  "ai_support_chat = serve_handler support_messages rate_limit_only support_extract"

subsection \<open>ai-knowledge-query\<close>

record document =
  doc_title :: string
  doc_content :: string

record knowledge_input =
  query :: string
  documents :: "document list option"

text \<open>
  \<^verbatim>\<open>documents?.length ? documents.map((doc, idx) => `[${idx + 1}] ${doc.title}:\n${doc.content}`).join('\n\n') : 'No documents available.'\<close>
\<close>

definition docsContext_of :: "document list option \<Rightarrow> string" where
  "docsContext_of dso =
     (case dso of
        None \<Rightarrow> ''No documents available.''
      | Some ds \<Rightarrow>
          if length ds = 0 then ''No documents available.''
          else js_join (nl @ nl)
                 (map (\<lambda>(idx, doc). ''['' @ show_nat (idx + 1) @ ''] '' @ doc_title doc @ '':'' @ nl @ doc_content doc)
                      (enumerate 0 ds)))"

definition knowledge_systemPrompt :: "string \<Rightarrow> string" where
  \<open>knowledge_systemPrompt docsContext =
     template_lines
       [''You are a knowledge assistant. Answer questions based on the provided documents.'',
        [],
        ''Rules:'',
        ''1. Only use information from the provided documents'',
        ''2. Cite sources using [1], [2], etc.'',
        ''3. If the answer isn't in the documents, say so clearly'',
        ''4. Generate action items when relevant'',
        ''5. Be concise but thorough'',
        [],
        ''Documents:'',
        docsContext,
        [],
        ''Respond in JSON format:'',
        ''{'',
        ''  "answer": "Your answer with [citations]",'',
        ''  "citations": [1, 2],'',
        ''  "summary": "Brief summary if applicable",'',
        ''  "actionItems": ["action 1", "action 2"],'',
        ''  "confidence": "high" | "medium" | "low"'',
        ''}'']\<close>

definition knowledge_messages :: "knowledge_input \<Rightarrow> 'n json list" where
  "knowledge_messages inp =
     [chat_entry ''system'' (knowledge_systemPrompt (docsContext_of (documents inp))),
      chat_entry ''user'' (query inp)]"

definition ai_knowledge_query ::
  "('n::zero) platform \<Rightarrow> knowledge_input request \<Rightarrow> 'n response \<times> 'n fetch_request list" where
  "ai_knowledge_query = serve_handler knowledge_messages rate_limit_only knowledge_extract"

subsection \<open>ai-job-assistant\<close>

record job_settings =
  tone :: "string option"
  coverLetterLength :: "string option"

text \<open>\<^verbatim>\<open>settings?.tone\<close> and \<^verbatim>\<open>settings?.coverLetterLength\<close>, and \<^verbatim>\<open>x || 'default'\<close> on a string.\<close>

definition settings_tone :: "job_settings option \<Rightarrow> string option" where
  "settings_tone so = (case so of None \<Rightarrow> None | Some s \<Rightarrow> tone s)"

definition settings_coverLetterLength :: "job_settings option \<Rightarrow> string option" where
  "settings_coverLetterLength so = (case so of None \<Rightarrow> None | Some s \<Rightarrow> coverLetterLength s)"

definition or_default :: "string option \<Rightarrow> string \<Rightarrow> string" where
  "or_default v d = (case v of None \<Rightarrow> d | Some s \<Rightarrow> if s = [] then d else s)"

definition job_systemPrompt :: "job_settings option \<Rightarrow> string" where
  \<open>job_systemPrompt settings =
     template_lines
       [''You are an expert career coach and resume writer. Help candidates create tailored job application materials.'',
        [],
        ''Given a resume and job description, generate:'',
        ''1. 5-7 tailored resume bullet points highlighting relevant experience'',
        ''2. A compelling cover letter ('' @ or_default (settings_coverLetterLength settings) ''3-4 paragraphs'' @ '')'',
        ''3. A brief recruiter-friendly summary (2-3 sentences)'',
        [],
        ''Use a '' @ or_default (settings_tone settings) ''professional'' @ '' tone. Be specific and quantify achievements where possible.'',
        [],
        ''Respond in JSON format:'',
        ''{'',
        ''  "bullets": ["bullet1", "bullet2", ...],'',
        ''  "coverLetter": "full cover letter text",'',
        ''  "summary": "brief summary"'',
        ''}'']\<close>

definition job_userPrompt :: "string \<Rightarrow> string \<Rightarrow> string" where
  \<open>job_userPrompt resumeContent jobDescription =
     template_lines
       [''Resume Content:'',
        resumeContent,
        [],
        ''Job Description:'',
        jobDescription,
        [],
        ''Generate tailored application materials.'']\<close>

record job_input =
  job_resumeContent :: string
  jobDescription :: string
  settings :: "job_settings option"

definition job_messages :: "job_input \<Rightarrow> 'n json list" where
  "job_messages inp =
     [chat_entry ''system'' (job_systemPrompt (settings inp)),
      chat_entry ''user'' (job_userPrompt (job_resumeContent inp) (jobDescription inp))]"

definition ai_job_assistant ::
  "('n::zero) platform \<Rightarrow> job_input request \<Rightarrow> 'n response \<times> 'n fetch_request list" where
  "ai_job_assistant = serve_handler job_messages rate_limit_and_credits job_extract"

section \<open>A reference reader of JSON texts\<close>

text \<open>
  The theorems below hold for every \<^verbatim>\<open>JSON.parse\<close> the platform may have. To run the
  handlers on concrete texts, \<open>json_parse\<close> reads a part of the JSON grammar: integer
  numbers, kept exact, and the two-character escapes in strings. It rejects a text with a
  \<^verbatim>\<open>\u\<close> escape, a fraction or an exponent, which the platform accepts, and it keeps the
  keys of an object in the order of the text, where the platform puts integer-like keys first;
  a repeated key keeps its first place and its last value. It is used only in closed runs on
  texts without these features, where it agrees with the platform. Every rejection carries the
  same message, which stands for the platform's.
\<close>

definition is_ws :: "char \<Rightarrow> bool" where
  "is_ws c = (c = CHR '' '' \<or> c = CHR 0x0A \<or> c = CHR 0x0D \<or> c = CHR 0x09)"

definition skip_ws :: "string \<Rightarrow> string" where
  "skip_ws s = dropWhile is_ws s"

definition expect :: "char \<Rightarrow> string \<Rightarrow> string option" where
  "expect c s = (case skip_ws s of [] \<Rightarrow> None | d # r \<Rightarrow> if d = c then Some r else None)"

definition unescape :: "char \<Rightarrow> char option" where
  "unescape e =
     (if e = CHR 0x22 then Some (CHR 0x22)
      else if e = CHR 0x5C then Some (CHR 0x5C)
      else if e = CHR ''/'' then Some (CHR ''/'')
      else if e = CHR ''b'' then Some (CHR 0x08)
      else if e = CHR ''f'' then Some (CHR 0x0C)
      else if e = CHR ''n'' then Some (CHR 0x0A)
      else if e = CHR ''r'' then Some (CHR 0x0D)
      else if e = CHR ''t'' then Some (CHR 0x09)
      else None)"

fun parse_chars :: "string \<Rightarrow> string \<Rightarrow> (string \<times> string) option" where
  "parse_chars acc [] = None"
| "parse_chars acc [c] = (if c = CHR 0x22 then Some (rev acc, []) else None)"
| "parse_chars acc (c # e # es) =
     (if c = CHR 0x22 then Some (rev acc, e # es)
      else if c = CHR 0x5C then
        (case unescape e of None \<Rightarrow> None | Some u \<Rightarrow> parse_chars (u # acc) es)
      else if (of_char c :: nat) < 32 then None
      else parse_chars (c # acc) (e # es))"

definition is_digit :: "char \<Rightarrow> bool" where
  "is_digit c = (48 \<le> (of_char c :: nat) \<and> (of_char c :: nat) \<le> 57)"

definition digits_value :: "string \<Rightarrow> int" where
  "digits_value ds = foldl (\<lambda>a c. 10 * a + (int (of_char c) - 48)) 0 ds"

definition parse_digits :: "string \<Rightarrow> (int \<times> string) option" where
  "parse_digits s =
     (let ds = takeWhile is_digit s; r = dropWhile is_digit s
      in if ds = [] then None
         else if 1 < length ds \<and> hd ds = CHR ''0'' then None
         else if r \<noteq> [] \<and> hd r \<in> set ''.eE'' then None
         else Some (digits_value ds, r))"

definition parse_literal :: "string \<Rightarrow> (int json \<times> string) option" where
  "parse_literal s =
     (if take 4 s = ''null'' then Some (JNull, drop 4 s)
      else if take 4 s = ''true'' then Some (JBool True, drop 4 s)
      else if take 5 s = ''false'' then Some (JBool False, drop 5 s)
      else if take 1 s = ''-'' then map_option (\<lambda>(n, r). (JNum (- n), r)) (parse_digits (drop 1 s))
      else map_option (\<lambda>(n, r). (JNum n, r)) (parse_digits s))"

definition set_member :: "string \<Rightarrow> int json \<Rightarrow> (string \<times> int json) list \<Rightarrow> (string \<times> int json) list" where
  "set_member k v kv = (if k \<in> fst ` set kv then map (\<lambda>(k', v'). if k' = k then (k, v) else (k', v')) kv else kv @ [(k, v)])"

fun parse_value :: "nat \<Rightarrow> string \<Rightarrow> (int json \<times> string) option"
and parse_elements :: "nat \<Rightarrow> int json list \<Rightarrow> string \<Rightarrow> (int json \<times> string) option"
and parse_members :: "nat \<Rightarrow> (string \<times> int json) list \<Rightarrow> string \<Rightarrow> (int json \<times> string) option" where
  "parse_value 0 s = None"
| "parse_value (Suc n) s =
     (case skip_ws s of
        [] \<Rightarrow> None
      | c # cs \<Rightarrow>
          if c = CHR ''{'' then
            (case expect (CHR ''}'') cs of Some r \<Rightarrow> Some (JObj [], r) | None \<Rightarrow> parse_members n [] cs)
          else if c = CHR ''['' then
            (case expect (CHR '']'') cs of Some r \<Rightarrow> Some (JArr [], r) | None \<Rightarrow> parse_elements n [] cs)
          else if c = CHR 0x22 then map_option (\<lambda>(str, r). (JStr str, r)) (parse_chars [] cs)
          else parse_literal (c # cs))"
| "parse_elements 0 acc s = None"
| "parse_elements (Suc n) acc s =
     (case parse_value n s of
        None \<Rightarrow> None
      | Some (v, r) \<Rightarrow>
          (case expect (CHR '','') r of
             Some r' \<Rightarrow> parse_elements n (acc @ [v]) r'
           | None \<Rightarrow> map_option (\<lambda>r'. (JArr (acc @ [v]), r')) (expect (CHR '']'') r)))"
| "parse_members 0 acc s = None"
| "parse_members (Suc n) acc s =
     (case expect (CHR 0x22) s of
        None \<Rightarrow> None
      | Some cs \<Rightarrow>
          (case parse_chars [] cs of
             None \<Rightarrow> None
           | Some (k, r) \<Rightarrow>
               (case expect (CHR '':'') r of
                  None \<Rightarrow> None
                | Some r' \<Rightarrow>
                    (case parse_value n r' of
                       None \<Rightarrow> None
                     | Some (v, r'') \<Rightarrow>
                         (case expect (CHR '','') r'' of
                            Some r3 \<Rightarrow> parse_members n (set_member k v acc) r3
                          | None \<Rightarrow> map_option (\<lambda>r3. (JObj (set_member k v acc), r3)) (expect (CHR ''}'') r''))))))"

definition json_parse :: "string \<Rightarrow> js_error + int json" where
  "json_parse s =
     (case parse_value (2 * length s + 2) s of
        None \<Rightarrow> Inl (Error ''Unexpected token in JSON'')
      | Some (v, r) \<Rightarrow> if skip_ws r = [] then Inr v else Inl (Error ''Unexpected token in JSON''))"

text \<open>
  \<^verbatim>\<open>JSON.stringify\<close> of a string of printable ASCII characters and line feeds, and of the
  body the gateway sends for a completion text:
  \<^verbatim>\<open>{"choices":[{"message":{"content":<the text>}}]}\<close>.
\<close>

definition stringify_string :: "string \<Rightarrow> string" where
  "stringify_string s =
     [CHR 0x22]
     @ concat (map (\<lambda>c. if c = CHR 0x22 then [CHR 0x5C, CHR 0x22]
                           else if c = CHR 0x5C then [CHR 0x5C, CHR 0x5C]
                           else if c = CHR 0x0A then [CHR 0x5C, CHR ''n'']
                           else [c]) s)
     @ [CHR 0x22]"

definition completion_body :: "string \<Rightarrow> string" where
  \<open>completion_body text = ''{"choices":[{"message":{"content":'' @ stringify_string text @ ''}}]}''\<close>

section \<open>Habit tracker screen: toggling a habit\<close>

text \<open>
  \<^verbatim>\<open>toggleHabit\<close> of \<^verbatim>\<open>src/pages/HabitTracker.tsx\<close>. The fields of \<^verbatim>\<open>HabitLog\<close> and
  \<^verbatim>\<open>Habit\<close> carry the prefixes \<open>hl_\<close> and \<open>hb_\<close>; of a habit the function reads
  \<^verbatim>\<open>id\<close> and \<^verbatim>\<open>name\<close> only.
\<close>

record HabitLog =
  hl_id :: string
  hl_habit_id :: string
  hl_completed :: bool
  hl_notes :: "string option"
  hl_logged_at :: string

record Habit =
  hb_id :: string
  hb_name :: string

text \<open>The state of the component the function reads: \<^verbatim>\<open>logs\<close>, \<^verbatim>\<open>habits\<close>, \<^verbatim>\<open>user?.id\<close>.\<close>

record tracker_state =
  tracker_logs :: "HabitLog list"
  tracker_habits :: "Habit list"
  tracker_user_id :: "string option"

text \<open>
  What the awaited database call resolves to: \<^verbatim>\<open>{ data, error }\<close>, with \<open>None\<close> for
  \<^verbatim>\<open>null\<close>.
\<close>

record db_reply =
  reply_data :: "HabitLog option"
  reply_error :: "string option"

text \<open>
  The effects of one call, in the order they happen: the write sent to the database
  (\<^verbatim>\<open>.update({ completed }).eq('id', id)\<close> or \<^verbatim>\<open>.insert({ habit_id, user_id, completed, logged_at })\<close>),
  \<^verbatim>\<open>setLogs\<close>, and \<^verbatim>\<open>toast({ title, description, variant: 'destructive' | none })\<close>.
\<close>

datatype tracker_event =
    DbUpdate string bool
  | DbInsert string "string option" bool string
  | SetLogs "HabitLog list"
  | Toast string string bool

text \<open>\<^verbatim>\<open>`${habit?.name} completed!`\<close>\<close>

definition completed_title :: "Habit option \<Rightarrow> string" where
  "completed_title habit =
     (case habit of None \<Rightarrow> ''undefined'' | Some h \<Rightarrow> hb_name h) @ '' completed!''"

text \<open>
  \<open>today\<close> is \<^verbatim>\<open>new Date().toISOString().split('T')[0]\<close>; \<open>reply\<close> is what the one
  awaited write resolves to. The result is the list of effects and the state after the call.
\<close>

definition toggleHabit ::
  "tracker_state \<Rightarrow> string \<Rightarrow> string \<Rightarrow> db_reply \<Rightarrow> tracker_event list \<times> tracker_state" where
  "toggleHabit st habitId today reply =
     (case find (\<lambda>l. hl_habit_id l = habitId \<and> hl_logged_at l = today) (tracker_logs st) of
        Some existingLog \<Rightarrow>
          (let write = DbUpdate (hl_id existingLog) (\<not> hl_completed existingLog)
           in case reply_error reply of
                Some e \<Rightarrow> ([write, Toast ''Error'' ''Could not update habit'' True], st)
              | None \<Rightarrow>
                  (let logs' = map (\<lambda>l. if hl_id l = hl_id existingLog
                                         then l\<lparr>hl_completed := \<not> hl_completed l\<rparr> else l)
                                  (tracker_logs st);
                       habit = find (\<lambda>h. hb_id h = habitId) (tracker_habits st)
                   in ([write, SetLogs logs']
                       @ (if \<not> hl_completed existingLog
                          then [Toast (completed_title habit) ''Keep up the great work!'' False]
                          else []),
                       st\<lparr>tracker_logs := logs'\<rparr>)))
      | None \<Rightarrow>
          (let write = DbInsert habitId (tracker_user_id st) True today
           in case reply_error reply of
                Some e \<Rightarrow> ([write, Toast ''Error'' ''Could not log habit'' True], st)
              | None \<Rightarrow>
                  (case reply_data reply of
                     None \<Rightarrow> ([write], st)
                   | Some data \<Rightarrow>
                       (let habit = find (\<lambda>h. hb_id h = habitId) (tracker_habits st)
                        in ([write, SetLogs (tracker_logs st @ [data]),
                             Toast (completed_title habit) ''Keep up the great work!'' False],
                            st\<lparr>tracker_logs := tracker_logs st @ [data]\<rparr>)))))"

fun is_db_write :: "tracker_event \<Rightarrow> bool" where
  "is_db_write (DbUpdate i c) = True"
| "is_db_write (DbInsert h u c d) = True"
| "is_db_write e = False"

fun is_set_logs :: "tracker_event \<Rightarrow> bool" where
  "is_set_logs (SetLogs ls) = True"
| "is_set_logs e = False"

section \<open>Example requests and platforms\<close>

text \<open>A POST request whose body parses to the fields \<open>inp\<close>.\<close>

definition post_request :: "'i \<Rightarrow> 'i request" where
  "post_request inp = \<lparr>req_method = ''POST'', req_json = Inr inp\<rparr>"

text \<open>
  A platform with the given value of \<^verbatim>\<open>LOVABLE_API_KEY\<close>, the reference reader as
  \<^verbatim>\<open>JSON.parse\<close>, and a gateway that gives the same outcome to every call.
\<close>

definition reply_platform :: "string option \<Rightarrow> fetch_result \<Rightarrow> int platform" where
  "reply_platform key r = \<lparr>env_LOVABLE_API_KEY = key, JSON_parse = json_parse, fetch = (\<lambda>call. r)\<rparr>"

text \<open>
  The habit insights scenario: one daily habit, one completed log without notes, and the
  completion text of the gateway with the object it denotes. \<open>meditate_userPrompt\<close> is the
  user prompt with the two joined lists written out.
\<close>

definition meditate_input :: habit_input where
  "meditate_input =
     \<lparr>habits = [\<lparr>name = ''Meditate'', frequency = ''daily''\<rparr>],
      logs = [\<lparr>habit_name = ''Meditate'', logged_at = ''2024-01-01'', completed = True, log_notes = None\<rparr>]\<rparr>"

definition meditate_userPrompt :: string where
  "meditate_userPrompt =
     habit_userPrompt ''- Meditate (daily)'' (''Meditate on 2024-01-01: '' @ check_mark @ '' Completed'')"

definition great_job_completion :: string where
  \<open>great_job_completion =
     ''{"insights":[{"type":"encouragement","message":"Great job!"}],"overallScore":80,"topPerformingHabit":"Meditate","needsAttention":null}''\<close>

definition great_job_object :: "int json" where
  "great_job_object =
     JObj [(''insights'', JArr [JObj [(''type'', JStr ''encouragement''), (''message'', JStr ''Great job!'')]]),
           (''overallScore'', JNum 80),
           (''topPerformingHabit'', JStr ''Meditate''),
           (''needsAttention'', JNull)]"

section \<open>Properties of the Response Extractor\<close>

text \<open>
  The match is the span from the first opening brace to the last closing brace; there is none
  when no closing brace follows the first opening brace.
\<close>

lemma match_braces_span:
  assumes "CHR ''{'' \<notin> set pre" and "CHR ''}'' \<notin> set post"
  shows "match_braces (pre @ CHR ''{'' # mid @ CHR ''}'' # post) = Some (CHR ''{'' # mid @ ''}'')"
proof -
  let ?t = "CHR ''{'' # mid @ CHR ''}'' # post"
  have open_at: "dropWhile (\<lambda>c. c \<noteq> CHR ''{'') (pre @ ?t) = ?t"
    using assms(1) by (simp add: dropWhile_append)
  have "dropWhile (\<lambda>c. c \<noteq> CHR ''}'') (rev ?t) = CHR ''}'' # rev mid @ ''{''"
    using assms(2) by (simp add: dropWhile_append)
  then have close_at: "rev (dropWhile (\<lambda>c. c \<noteq> CHR ''}'') (rev ?t)) = CHR ''{'' # mid @ ''}''"
    by simp
  have "CHR ''}'' \<in> set ?t" by simp
  then show ?thesis
    unfolding match_braces_def Let_def open_at close_at by simp
qed

lemma match_braces_none:
  assumes "CHR ''}'' \<notin> set (dropWhile (\<lambda>c. c \<noteq> CHR ''{'') s)"
  shows "match_braces s = None"
  using assms by (simp add: match_braces_def Let_def)

lemma extract_result_parsed:
  assumes "match_braces s = Some m" and "P m = Inr obj"
  shows "extract_result P no_match on_catch (JStr s) = obj"
  using assms by (simp add: extract_result_def try_extract_def)

lemma extract_result_thrown:
  assumes "match_braces s = Some m" and "P m = Inl e"
  shows "extract_result P no_match on_catch (JStr s) = on_catch (JStr s)"
  using assms by (simp add: extract_result_def try_extract_def)

lemma extract_result_no_match:
  assumes "match_braces s = None"
  shows "extract_result P no_match on_catch (JStr s) = no_match (JStr s)"
  using assms by (simp add: extract_result_def try_extract_def)

text \<open>
  Claim C1. For every feature's extraction step: when the completion text is some prose without
  braces, then one JSON object text (first character \<^verbatim>\<open>{\<close>, last character \<^verbatim>\<open>}\<close>, accepted by
  \<^verbatim>\<open>JSON.parse\<close>), then prose without braces, the result is the object \<^verbatim>\<open>JSON.parse\<close> reads
  from that text, whatever its fields are.
\<close>

theorem extract_single_object:
  assumes "CHR ''{'' \<notin> set pre" and "CHR ''}'' \<notin> set pre"
    and "CHR ''{'' \<notin> set post" and "CHR ''}'' \<notin> set post"
    and "P (CHR ''{'' # mid @ ''}'') = Inr obj"
  shows "support_extract P (JStr (pre @ (CHR ''{'' # mid @ ''}'') @ post)) = obj
       \<and> habit_extract P (JStr (pre @ (CHR ''{'' # mid @ ''}'') @ post)) = obj
       \<and> knowledge_extract P (JStr (pre @ (CHR ''{'' # mid @ ''}'') @ post)) = obj
       \<and> ats_extract P (JStr (pre @ (CHR ''{'' # mid @ ''}'') @ post)) = obj
       \<and> job_extract P (JStr (pre @ (CHR ''{'' # mid @ ''}'') @ post)) = obj"
proof -
  have "match_braces (pre @ (CHR ''{'' # mid @ ''}'') @ post) = Some (CHR ''{'' # mid @ ''}'')"
    using match_braces_span [OF assms(1) assms(4), of mid] by simp
  then show ?thesis
    using assms(5)
    by (simp add: support_extract_def habit_extract_def knowledge_extract_def ats_extract_def
          job_extract_def extract_result_parsed)
qed

text \<open>
  Witness of C1: an object between two sentences, with braces inside one of its strings, read
  by the reference reader.
\<close>

theorem extract_single_object_witness:
  \<open>json_parse ''{"reply": "Hi {name}", "shouldEscalate": false}''
     = Inr (JObj [(''reply'', JStr ''Hi {name}''), (''shouldEscalate'', JBool False)])
   \<and> ats_extract json_parse (JStr ''Sure! Here it is: {"reply": "Hi {name}", "shouldEscalate": false} Anything else?'')
     = JObj [(''reply'', JStr ''Hi {name}''), (''shouldEscalate'', JBool False)]\<close>
proof -
  have parsed: \<open>json_parse (CHR ''{'' # ''"reply": "Hi {name}", "shouldEscalate": false'' @ ''}'')
     = Inr (JObj [(''reply'', JStr ''Hi {name}''), (''shouldEscalate'', JBool False)])\<close>
    by code_simp
  have pre: \<open>CHR ''{'' \<notin> set ''Sure! Here it is: ''\<close> \<open>CHR ''}'' \<notin> set ''Sure! Here it is: ''\<close>
    by simp_all
  have post: \<open>CHR ''{'' \<notin> set '' Anything else?''\<close> \<open>CHR ''}'' \<notin> set '' Anything else?''\<close>
    by simp_all
  show ?thesis
    using parsed pre post
      extract_single_object [of \<open>''Sure! Here it is: ''\<close> \<open>'' Anything else?''\<close> json_parse
        \<open>''"reply": "Hi {name}", "shouldEscalate": false''\<close>
        \<open>JObj [(''reply'', JStr ''Hi {name}''), (''shouldEscalate'', JBool False)]\<close>]
    by simp
qed

section \<open>The paths through a handler\<close>

text \<open>
  One lemma per exit of the \<^verbatim>\<open>try\<close> body, in the order of the source, then the two ways
  the handler ends: the \<^verbatim>\<open>catch\<close> and the returned response.
\<close>

lemma handler_try_body_error:
  assumes "req_json req = Inl e"
  shows "handler_try build mapped extract pf req = (Inl e, [])"
  using assms by (simp add: handler_try_def)

lemma handler_try_no_key:
  assumes "req_json req = Inr inp" and "env_LOVABLE_API_KEY pf = None"
  shows "handler_try build mapped extract pf req = (Inl (Error ''LOVABLE_API_KEY is not configured''), [])"
  using assms by (simp add: handler_try_def)

lemma handler_try_empty_key:
  assumes "req_json req = Inr inp" and "env_LOVABLE_API_KEY pf = Some []"
  shows "handler_try build mapped extract pf req = (Inl (Error ''LOVABLE_API_KEY is not configured''), [])"
  using assms by (simp add: handler_try_def)

lemma handler_try_fetch_error:
  assumes "req_json req = Inr inp" and "env_LOVABLE_API_KEY pf = Some k" and "k \<noteq> []"
    and "fetch pf (gateway_request k (build inp)) = FetchError e"
  shows "handler_try build mapped extract pf req = (Inl e, [gateway_request k (build inp)])"
  using assms by (simp add: handler_try_def)

lemma handler_try_mapped:
  assumes "req_json req = Inr inp" and "env_LOVABLE_API_KEY pf = Some k" and "k \<noteq> []"
    and "fetch pf (gateway_request k (build inp)) = FetchResponse st raw"
    and "\<not> response_ok st" and "map_of mapped st = Some msg"
  shows "handler_try build mapped extract pf req
         = (Inr (error_response st msg), [gateway_request k (build inp)])"
  using assms by (simp add: handler_try_def)

lemma handler_try_unmapped:
  assumes "req_json req = Inr inp" and "env_LOVABLE_API_KEY pf = Some k" and "k \<noteq> []"
    and "fetch pf (gateway_request k (build inp)) = FetchResponse st raw"
    and "\<not> response_ok st" and "map_of mapped st = None"
  shows "handler_try build mapped extract pf req
         = (Inl (Error (''AI gateway error: '' @ show_nat st)), [gateway_request k (build inp)])"
  using assms by (simp add: handler_try_def)

lemma handler_try_body_not_json:
  assumes "req_json req = Inr inp" and "env_LOVABLE_API_KEY pf = Some k" and "k \<noteq> []"
    and "fetch pf (gateway_request k (build inp)) = FetchResponse st raw"
    and "response_ok st" and "JSON_parse pf raw = Inl e"
  shows "handler_try build mapped extract pf req = (Inl e, [gateway_request k (build inp)])"
  using assms by (simp add: handler_try_def)

lemma handler_try_content_error:
  assumes "req_json req = Inr inp" and "env_LOVABLE_API_KEY pf = Some k" and "k \<noteq> []"
    and "fetch pf (gateway_request k (build inp)) = FetchResponse st raw"
    and "response_ok st" and "JSON_parse pf raw = Inr data" and "completion_content data = Inl e"
  shows "handler_try build mapped extract pf req = (Inl e, [gateway_request k (build inp)])"
  using assms by (simp add: handler_try_def)

lemma handler_try_success:
  assumes "req_json req = Inr inp" and "env_LOVABLE_API_KEY pf = Some k" and "k \<noteq> []"
    and "fetch pf (gateway_request k (build inp)) = FetchResponse st raw"
    and "response_ok st" and "JSON_parse pf raw = Inr data"
    and "completion_content data = Inr content"
  shows "handler_try build mapped extract pf req
         = (Inr (json_response 200 (extract (JSON_parse pf) content)), [gateway_request k (build inp)])"
  using assms by (simp add: handler_try_def)

lemma serve_handler_options:
  assumes "req_method req = ''OPTIONS''"
  shows "serve_handler build mapped extract pf req = (preflight_response, [])"
  using assms by (simp add: serve_handler_def)

lemma serve_handler_thrown:
  assumes "req_method req \<noteq> ''OPTIONS''"
    and "handler_try build mapped extract pf req = (Inl e, calls)"
  shows "serve_handler build mapped extract pf req = (error_response 500 (error_message e), calls)"
  using assms by (simp add: serve_handler_def)

lemma serve_handler_returned:
  assumes "req_method req \<noteq> ''OPTIONS''"
    and "handler_try build mapped extract pf req = (Inr r, calls)"
  shows "serve_handler build mapped extract pf req = (r, calls)"
  using assms by (simp add: serve_handler_def)

lemma post_request_simps:
  "req_method (post_request inp) \<noteq> ''OPTIONS''" "req_json (post_request inp) = Inr inp"
  by (simp_all add: post_request_def)

lemma json_response_cors: "set corsHeaders \<subseteq> set (headers (json_response st v))"
  by (auto simp: json_response_def)

lemma error_response_cors: "set corsHeaders \<subseteq> set (headers (error_response st msg))"
  by (simp add: error_response_def json_response_cors)

lemma handler_try_cors:
  assumes "handler_try build mapped extract pf req = (Inr r, calls)"
  shows "set corsHeaders \<subseteq> set (headers r)"
proof -
  from assms have "(\<exists>st msg. r = error_response st msg) \<or> (\<exists>st v. r = json_response st v)"
    by (fastforce simp: handler_try_def Let_def
        split: sum.splits option.splits if_splits fetch_result.splits)
  then show ?thesis
    using json_response_cors error_response_cors by blast
qed

lemma serve_handler_cors:
  assumes "req_method req \<noteq> ''OPTIONS''"
  shows "set corsHeaders \<subseteq> set (headers (fst (serve_handler build mapped extract pf req)))"
proof (cases "handler_try build mapped extract pf req")
  case (Pair res calls)
  show ?thesis
  proof (cases res)
    case (Inl e)
    with Pair assms show ?thesis
      by (simp add: serve_handler_thrown error_response_cors)
  next
    case (Inr r)
    with Pair assms handler_try_cors [of build mapped "extract" pf req r calls] show ?thesis
      by (simp add: serve_handler_returned)
  qed
qed

lemma serve_handler_success:
  assumes "env_LOVABLE_API_KEY pf = Some k" and "k \<noteq> []"
    and "fetch pf (gateway_request k (build inp)) = FetchResponse st raw" and "response_ok st"
    and "JSON_parse pf raw = Inr data" and "completion_content data = Inr content"
  shows "serve_handler build mapped extr pf (post_request inp)
         = (json_response 200 (extr (JSON_parse pf) content), [gateway_request k (build inp)])"
  using assms handler_try_success [of "post_request inp" inp pf k build st raw data content mapped extr]
  by (simp add: serve_handler_returned post_request_simps)

lemma serve_handler_mapped:
  assumes "env_LOVABLE_API_KEY pf = Some k" and "k \<noteq> []"
    and "fetch pf (gateway_request k (build inp)) = FetchResponse st raw"
    and "\<not> response_ok st" and "map_of mapped st = Some msg"
  shows "serve_handler build mapped extr pf (post_request inp)
         = (error_response st msg, [gateway_request k (build inp)])"
  using assms handler_try_mapped [of "post_request inp" inp pf k build st raw mapped msg extr]
  by (simp add: serve_handler_returned post_request_simps)

lemma serve_handler_unmapped:
  assumes "env_LOVABLE_API_KEY pf = Some k" and "k \<noteq> []"
    and "fetch pf (gateway_request k (build inp)) = FetchResponse st raw"
    and "\<not> response_ok st" and "map_of mapped st = None"
  shows "serve_handler build mapped extr pf (post_request inp)
         = (error_response 500 (''AI gateway error: '' @ show_nat st), [gateway_request k (build inp)])"
  using assms handler_try_unmapped [of "post_request inp" inp pf k build st raw mapped extr]
  by (simp add: serve_handler_thrown post_request_simps)

lemma extract_result_text:
  "extract_result P no_match on_catch (JStr s)
   = (case match_braces s of
        None \<Rightarrow> no_match (JStr s)
      | Some m \<Rightarrow> (case P m of Inl e \<Rightarrow> on_catch (JStr s) | Inr j \<Rightarrow> j))"
  by (simp add: extract_result_def try_extract_def split: option.splits sum.splits)

lemma show_nat_402: "show_nat 402 = ''402''"
  by (simp add: show_nat.simps digit_char_def)

text \<open>
  On a completion text, the extraction step is decided by the match and by \<^verbatim>\<open>JSON.parse\<close>;
  when there is no match, every handler answers with its no-match object.
\<close>

lemma no_match_objects:
  assumes "match_braces s = None"
  shows "support_extract P (JStr s) = support_fallback (JStr s)
       \<and> habit_extract P (JStr s) = habit_fallback (JStr s)
       \<and> knowledge_extract P (JStr s) = knowledge_fallback (JStr s)
       \<and> ats_extract P (JStr s) = ats_no_match (JStr s)
       \<and> job_extract P (JStr s) = job_fallback (JStr s)"
  using assms
  by (simp add: support_extract_def habit_extract_def knowledge_extract_def ats_extract_def
        job_extract_def extract_result_no_match)

section \<open>Claims about the handlers\<close>

text \<open>
  Claim C2, at the ATS optimizer's scenario. The gateway answers 200 with the completion text
  \<^verbatim>\<open>Sure! Here's your analysis: not json\<close>, which has no brace. The handler answers 200 with
  the object of its no-match branch, \<^verbatim>\<open>{"score":50,"suggestions":[]}\<close>: the text is not in
  it, while the object of the catch branch of the same handler has it as \<^verbatim>\<open>rawAnalysis\<close>.
\<close>

theorem ats_no_match_omits_rawAnalysis:
  \<open>fst (ai_ats_optimizer
          (reply_platform (Some ''key'')
             (FetchResponse 200 (completion_body ''Sure! Here's your analysis: not json'')))
          (post_request \<lparr>ats_resumeContent = ''Built things.'', targetRole = ''Engineer''\<rparr>))
    = \<lparr>status = 200,
       headers = corsHeaders @ [(''Content-Type'', ''application/json'')],
       body = Some (JObj [(''score'', JNum 50), (''suggestions'', JArr [])])\<rparr>\<close>
  by code_simp

text \<open>
  Claim C3. For every handler and every completion text \<open>s\<close> a gateway answers with (status in
  200..299, a JSON body whose \<^verbatim>\<open>choices[0].message.content\<close> is \<open>s\<close>): the response has status
  200, and its body is the parsed object when the match parses, the handler's catch object when
  \<^verbatim>\<open>JSON.parse\<close> throws on the match, and the no-match object when there is no match. No text
  leads to the 500 response of the outer \<^verbatim>\<open>catch\<close>.
\<close>

theorem parse_failure_never_propagates:
  fixes pf :: "('n::{zero,numeral}) platform"
  assumes "env_LOVABLE_API_KEY pf = Some k" and "k \<noteq> []"
    and "\<And>call. fetch pf call = FetchResponse st raw" and "response_ok st"
    and "JSON_parse pf raw = Inr data" and "completion_content data = Inr (JStr s)"
  shows "fst (ai_support_chat pf (post_request i1))
           = json_response 200
               (case match_braces s of
                  None \<Rightarrow> support_fallback (JStr s)
                | Some m \<Rightarrow> (case JSON_parse pf m of Inl e \<Rightarrow> support_fallback (JStr s) | Inr j \<Rightarrow> j))
       \<and> fst (ai_habit_insights pf (post_request i2))
           = json_response 200
               (case match_braces s of
                  None \<Rightarrow> habit_fallback (JStr s)
                | Some m \<Rightarrow> (case JSON_parse pf m of Inl e \<Rightarrow> habit_fallback (JStr s) | Inr j \<Rightarrow> j))
       \<and> fst (ai_knowledge_query pf (post_request i3))
           = json_response 200
               (case match_braces s of
                  None \<Rightarrow> knowledge_fallback (JStr s)
                | Some m \<Rightarrow> (case JSON_parse pf m of Inl e \<Rightarrow> knowledge_fallback (JStr s) | Inr j \<Rightarrow> j))
       \<and> fst (ai_ats_optimizer pf (post_request i4))
           = json_response 200
               (case match_braces s of
                  None \<Rightarrow> ats_no_match (JStr s)
                | Some m \<Rightarrow> (case JSON_parse pf m of Inl e \<Rightarrow> ats_catch (JStr s) | Inr j \<Rightarrow> j))
       \<and> fst (ai_job_assistant pf (post_request i5))
           = json_response 200
               (case match_braces s of
                  None \<Rightarrow> job_fallback (JStr s)
                | Some m \<Rightarrow> (case JSON_parse pf m of Inl e \<Rightarrow> job_fallback (JStr s) | Inr j \<Rightarrow> j))"
  using assms
  by (simp add: ai_support_chat_def ai_habit_insights_def ai_knowledge_query_def
        ai_ats_optimizer_def ai_job_assistant_def serve_handler_success [where st = st and raw = raw and data = data]
        support_extract_def habit_extract_def knowledge_extract_def ats_extract_def job_extract_def
        extract_result_text)

text \<open>
  Witness of C3: a text with an unbalanced span. The match is \<^verbatim>\<open>{"a": {"b": 1}\<close>, the reader
  rejects it, and the support chat answers 200 with its fallback object around the whole text.
\<close>

theorem parse_failure_never_propagates_witness:
  \<open>match_braces ''Here: {"a": {"b": 1} done'' = Some ''{"a": {"b": 1}''
   \<and> json_parse ''{"a": {"b": 1}'' = Inl (Error ''Unexpected token in JSON'')
   \<and> fst (ai_support_chat
            (reply_platform (Some ''key'') (FetchResponse 200 (completion_body ''Here: {"a": {"b": 1} done'')))
            (post_request \<lparr>message = ''Hello'', conversationHistory = None, knowledgeBase = None\<rparr>))
       = \<lparr>status = 200,
          headers = corsHeaders @ [(''Content-Type'', ''application/json'')],
          body = Some (JObj [(''reply'', JStr ''Here: {"a": {"b": 1} done''), (''shouldEscalate'', JBool False)])\<rparr>\<close>
proof -
  let ?text = \<open>''Here: {"a": {"b": 1} done''\<close>
  let ?pf = "reply_platform (Some ''key'') (FetchResponse 200 (completion_body ?text))"
  let ?data = "JObj [(''choices'', JArr [JObj [(''message'', JObj [(''content'', JStr ?text)])]])] :: int json"
  have key: "env_LOVABLE_API_KEY ?pf = Some ''key''" and nonempty: "''key'' \<noteq> []"
    by (simp_all add: reply_platform_def)
  have gateway: "\<And>call. fetch ?pf call = FetchResponse 200 (completion_body ?text)"
    by (simp add: reply_platform_def)
  have ok: "response_ok 200"
    by (simp add: response_ok_def)
  have read: "json_parse (completion_body ?text) = Inr ?data"
    by code_simp
  then have data: "JSON_parse ?pf (completion_body ?text) = Inr ?data"
    by (simp add: reply_platform_def)
  have content: "completion_content ?data = Inr (JStr ?text)"
    by code_simp
  have span: \<open>match_braces ?text = Some ''{"a": {"b": 1}''\<close>
    by code_simp
  have rejected: \<open>json_parse ''{"a": {"b": 1}'' = Inl (Error ''Unexpected token in JSON'')\<close>
    by code_simp
  then have rejected': \<open>JSON_parse ?pf ''{"a": {"b": 1}'' = Inl (Error ''Unexpected token in JSON'')\<close>
    by (simp add: reply_platform_def)
  show ?thesis
    using span rejected rejected'
      parse_failure_never_propagates [OF key nonempty gateway ok data content,
        where ?i1.0 = "\<lparr>message = ''Hello'', conversationHistory = None, knowledgeBase = None\<rparr>"]
    by (simp add: json_response_def support_fallback_def)
qed

text \<open>
  Claim C5. For every handler: when the credential is set and the gateway answers the call with
  status 429, the response has status 429, the body
  \<^verbatim>\<open>{"error": "Rate limit exceeded. Please try again later."}\<close> and the headers of every JSON
  response.
\<close>

theorem gateway_429_rate_limit:
  fixes pf :: "('n::{zero,numeral}) platform"
  assumes "env_LOVABLE_API_KEY pf = Some k" and "k \<noteq> []"
    and "\<And>call. fetch pf call = FetchResponse 429 raw"
  shows "fst (ai_support_chat pf (post_request i1))
           = error_response 429 ''Rate limit exceeded. Please try again later.''
       \<and> fst (ai_habit_insights pf (post_request i2))
           = error_response 429 ''Rate limit exceeded. Please try again later.''
       \<and> fst (ai_knowledge_query pf (post_request i3))
           = error_response 429 ''Rate limit exceeded. Please try again later.''
       \<and> fst (ai_ats_optimizer pf (post_request i4))
           = error_response 429 ''Rate limit exceeded. Please try again later.''
       \<and> fst (ai_job_assistant pf (post_request i5))
           = error_response 429 ''Rate limit exceeded. Please try again later.''"
proof -
  have not_ok: "\<not> response_ok 429"
    by (simp add: response_ok_def)
  have m1: "map_of rate_limit_only 429 = Some ''Rate limit exceeded. Please try again later.''"
    by (simp add: rate_limit_only_def)
  have m2: "map_of rate_limit_and_credits 429 = Some ''Rate limit exceeded. Please try again later.''"
    by (simp add: rate_limit_and_credits_def)
  show ?thesis
    using assms not_ok m1 m2
    by (simp add: ai_support_chat_def ai_habit_insights_def ai_knowledge_query_def
          ai_ats_optimizer_def ai_job_assistant_def serve_handler_mapped [where st = 429 and raw = raw])
qed

text \<open>Witness of C5: the habit insights handler behind a gateway that answers 429.\<close>

theorem gateway_429_rate_limit_witness:
  "status (fst (ai_habit_insights
                  (reply_platform (Some ''key'') (FetchResponse 429 ''Too Many Requests''))
                  (post_request \<lparr>habits = [], logs = []\<rparr>))) = 429
   \<and> body (fst (ai_habit_insights
                  (reply_platform (Some ''key'') (FetchResponse 429 ''Too Many Requests''))
                  (post_request \<lparr>habits = [], logs = []\<rparr>)))
       = Some (JObj [(''error'', JStr ''Rate limit exceeded. Please try again later.'')])"
proof -
  let ?pf = "reply_platform (Some ''key'') (FetchResponse 429 ''Too Many Requests'')"
  have key: "env_LOVABLE_API_KEY ?pf = Some ''key''" and nonempty: "''key'' \<noteq> []"
    by (simp_all add: reply_platform_def)
  have gateway: "\<And>call. fetch ?pf call = FetchResponse 429 ''Too Many Requests''"
    by (simp add: reply_platform_def)
  show ?thesis
    using gateway_429_rate_limit [OF key nonempty gateway, where ?i2.0 = "\<lparr>habits = [], logs = []\<rparr>"]
    by (simp add: error_response_def json_response_def)
qed

text \<open>
  Claim C6. When the gateway answers the call with status 402, the job assistant responds 402
  with \<^verbatim>\<open>{"error": "AI credits exhausted. Please add funds."}\<close>; each of the other four
  handlers throws \<^verbatim>\<open>AI gateway error: 402\<close> and responds 500 with that message.
\<close>

theorem gateway_402_only_job_assistant:
  fixes pf :: "('n::{zero,numeral}) platform"
  assumes "env_LOVABLE_API_KEY pf = Some k" and "k \<noteq> []"
    and "\<And>call. fetch pf call = FetchResponse 402 raw"
  shows "fst (ai_job_assistant pf (post_request i5))
           = error_response 402 ''AI credits exhausted. Please add funds.''
       \<and> fst (ai_support_chat pf (post_request i1)) = error_response 500 ''AI gateway error: 402''
       \<and> fst (ai_habit_insights pf (post_request i2)) = error_response 500 ''AI gateway error: 402''
       \<and> fst (ai_knowledge_query pf (post_request i3)) = error_response 500 ''AI gateway error: 402''
       \<and> fst (ai_ats_optimizer pf (post_request i4)) = error_response 500 ''AI gateway error: 402''"
proof -
  have not_ok: "\<not> response_ok 402"
    by (simp add: response_ok_def)
  have m1: "map_of rate_limit_only 402 = None"
    by (simp add: rate_limit_only_def)
  have m2: "map_of rate_limit_and_credits 402 = Some ''AI credits exhausted. Please add funds.''"
    by (simp add: rate_limit_and_credits_def)
  show ?thesis
    using assms not_ok m1 m2 show_nat_402
    by (simp add: ai_support_chat_def ai_habit_insights_def ai_knowledge_query_def
          ai_ats_optimizer_def ai_job_assistant_def
          serve_handler_mapped [where st = 402 and raw = raw]
          serve_handler_unmapped [where st = 402 and raw = raw])
qed

text \<open>Witness of C6: the job assistant and the ATS optimizer behind a gateway that answers 402.\<close>

theorem gateway_402_only_job_assistant_witness:
  "status (fst (ai_job_assistant
                  (reply_platform (Some ''key'') (FetchResponse 402 ''Payment Required''))
                  (post_request \<lparr>job_resumeContent = ''Built things.'', jobDescription = ''Build things.'', settings = None\<rparr>))) = 402
   \<and> body (fst (ai_job_assistant
                  (reply_platform (Some ''key'') (FetchResponse 402 ''Payment Required''))
                  (post_request \<lparr>job_resumeContent = ''Built things.'', jobDescription = ''Build things.'', settings = None\<rparr>)))
       = Some (JObj [(''error'', JStr ''AI credits exhausted. Please add funds.'')])
   \<and> status (fst (ai_ats_optimizer
                  (reply_platform (Some ''key'') (FetchResponse 402 ''Payment Required''))
                  (post_request \<lparr>ats_resumeContent = ''Built things.'', targetRole = ''Engineer''\<rparr>))) = 500
   \<and> body (fst (ai_ats_optimizer
                  (reply_platform (Some ''key'') (FetchResponse 402 ''Payment Required''))
                  (post_request \<lparr>ats_resumeContent = ''Built things.'', targetRole = ''Engineer''\<rparr>)))
       = Some (JObj [(''error'', JStr ''AI gateway error: 402'')])"
proof -
  let ?pf = "reply_platform (Some ''key'') (FetchResponse 402 ''Payment Required'')"
  have key: "env_LOVABLE_API_KEY ?pf = Some ''key''" and nonempty: "''key'' \<noteq> []"
    by (simp_all add: reply_platform_def)
  have gateway: "\<And>call. fetch ?pf call = FetchResponse 402 ''Payment Required''"
    by (simp add: reply_platform_def)
  show ?thesis
    using gateway_402_only_job_assistant [OF key nonempty gateway,
        where ?i5.0 = "\<lparr>job_resumeContent = ''Built things.'', jobDescription = ''Build things.'', settings = None\<rparr>"
          and ?i4.0 = "\<lparr>ats_resumeContent = ''Built things.'', targetRole = ''Engineer''\<rparr>"]
    by (simp add: error_response_def json_response_def)
qed

lemma serve_handler_missing_key:
  assumes "env_LOVABLE_API_KEY pf = None" and "m \<noteq> ''OPTIONS''"
  shows "serve_handler build mapped extr pf \<lparr>req_method = m, req_json = b\<rparr>
         = (error_response 500
              (case b of Inl e \<Rightarrow> error_message e | Inr inp \<Rightarrow> ''LOVABLE_API_KEY is not configured''),
            [])"
proof (cases b)
  case (Inl e)
  with assms show ?thesis
    by (simp add: serve_handler_thrown [where e = e and calls = "[]"] handler_try_body_error)
next
  case (Inr inp)
  with assms show ?thesis
    by (simp add: serve_handler_thrown [where e = "Error ''LOVABLE_API_KEY is not configured''" and calls = "[]"]
          handler_try_no_key [where inp = inp])
qed

text \<open>
  Claim C7, as amended. For every handler and every POST request, when \<^verbatim>\<open>LOVABLE_API_KEY\<close> is
  not in the environment: the response is 500 with a body \<^verbatim>\<open>{"error": message}\<close> and no call
  to the gateway is made. The message is \<^verbatim>\<open>LOVABLE_API_KEY is not configured\<close> when the
  request body was read (\<^verbatim>\<open>req.json()\<close> comes first in the \<^verbatim>\<open>try\<close>), and the message of the
  error \<^verbatim>\<open>req.json()\<close> threw otherwise.
\<close>

theorem missing_key_500_no_call:
  fixes pf :: "('n::{zero,numeral}) platform"
  assumes "env_LOVABLE_API_KEY pf = None"
  shows "ai_support_chat pf \<lparr>req_method = ''POST'', req_json = b1\<rparr>
           = (error_response 500
                (case b1 of Inl e \<Rightarrow> error_message e | Inr inp \<Rightarrow> ''LOVABLE_API_KEY is not configured''), [])
       \<and> ai_habit_insights pf \<lparr>req_method = ''POST'', req_json = b2\<rparr>
           = (error_response 500
                (case b2 of Inl e \<Rightarrow> error_message e | Inr inp \<Rightarrow> ''LOVABLE_API_KEY is not configured''), [])
       \<and> ai_knowledge_query pf \<lparr>req_method = ''POST'', req_json = b3\<rparr>
           = (error_response 500
                (case b3 of Inl e \<Rightarrow> error_message e | Inr inp \<Rightarrow> ''LOVABLE_API_KEY is not configured''), [])
       \<and> ai_ats_optimizer pf \<lparr>req_method = ''POST'', req_json = b4\<rparr>
           = (error_response 500
                (case b4 of Inl e \<Rightarrow> error_message e | Inr inp \<Rightarrow> ''LOVABLE_API_KEY is not configured''), [])
       \<and> ai_job_assistant pf \<lparr>req_method = ''POST'', req_json = b5\<rparr>
           = (error_response 500
                (case b5 of Inl e \<Rightarrow> error_message e | Inr inp \<Rightarrow> ''LOVABLE_API_KEY is not configured''), [])"
proof -
  have post: "''POST'' \<noteq> ''OPTIONS''"
    by simp
  show ?thesis
    unfolding ai_support_chat_def ai_habit_insights_def ai_knowledge_query_def
      ai_ats_optimizer_def ai_job_assistant_def
    by (simp only: serve_handler_missing_key [OF assms post] simp_thms)
qed

text \<open>Witness of C7: the ATS optimizer without the credential, on a request with both fields.\<close>

theorem missing_key_500_no_call_witness:
  "ai_ats_optimizer (reply_platform None (FetchResponse 200 ''{}''))
     \<lparr>req_method = ''POST'', req_json = Inr \<lparr>ats_resumeContent = ''Built things.'', targetRole = ''Engineer''\<rparr>\<rparr>
   = (\<lparr>status = 500,
       headers = corsHeaders @ [(''Content-Type'', ''application/json'')],
       body = Some (JObj [(''error'', JStr ''LOVABLE_API_KEY is not configured'')])\<rparr>, [])"
proof -
  have absent: "env_LOVABLE_API_KEY (reply_platform None (FetchResponse 200 ''{}'')) = None"
    by (simp add: reply_platform_def)
  show ?thesis
    using missing_key_500_no_call [OF absent,
        where ?b4.0 = "Inr \<lparr>ats_resumeContent = ''Built things.'', targetRole = ''Engineer''\<rparr>"]
    by (simp add: error_response_def json_response_def)
qed

text \<open>
  Counterexample to C7 as stated: without the credential, a POST without a body is answered 500
  with the message of the body-parse error, not with a configuration-error message.
\<close>

theorem missing_key_body_error_counterexample:
  "fst (ai_habit_insights (reply_platform None (FetchResponse 200 ''{}''))
          \<lparr>req_method = ''POST'', req_json = Inl (Error ''Unexpected end of JSON input'')\<rparr>)
   = \<lparr>status = 500,
      headers = corsHeaders @ [(''Content-Type'', ''application/json'')],
      body = Some (JObj [(''error'', JStr ''Unexpected end of JSON input'')])\<rparr>
   \<and> body (fst (ai_habit_insights (reply_platform None (FetchResponse 200 ''{}''))
          \<lparr>req_method = ''POST'', req_json = Inl (Error ''Unexpected end of JSON input'')\<rparr>))
     \<noteq> Some (JObj [(''error'', JStr ''LOVABLE_API_KEY is not configured'')])"
  by code_simp

text \<open>
  Claim C8, as amended. For every handler: an OPTIONS request is answered with status 200, no
  body and exactly the two CORS headers \<^verbatim>\<open>Access-Control-Allow-Origin\<close> and
  \<^verbatim>\<open>Access-Control-Allow-Headers\<close>; the response to a request of any other method carries
  these two headers.
\<close>

theorem preflight_and_cors_headers:
  fixes pf :: "('n::{zero,numeral}) platform"
  assumes "m \<noteq> ''OPTIONS''"
  shows "corsHeaders
           = [(''Access-Control-Allow-Origin'', ''*''),
              (''Access-Control-Allow-Headers'', ''authorization, x-client-info, apikey, content-type'')]
       \<and> fst (ai_support_chat pf \<lparr>req_method = ''OPTIONS'', req_json = b1\<rparr>)
           = \<lparr>status = 200, headers = corsHeaders, body = None\<rparr>
       \<and> fst (ai_habit_insights pf \<lparr>req_method = ''OPTIONS'', req_json = b2\<rparr>)
           = \<lparr>status = 200, headers = corsHeaders, body = None\<rparr>
       \<and> fst (ai_knowledge_query pf \<lparr>req_method = ''OPTIONS'', req_json = b3\<rparr>)
           = \<lparr>status = 200, headers = corsHeaders, body = None\<rparr>
       \<and> fst (ai_ats_optimizer pf \<lparr>req_method = ''OPTIONS'', req_json = b4\<rparr>)
           = \<lparr>status = 200, headers = corsHeaders, body = None\<rparr>
       \<and> fst (ai_job_assistant pf \<lparr>req_method = ''OPTIONS'', req_json = b5\<rparr>)
           = \<lparr>status = 200, headers = corsHeaders, body = None\<rparr>
       \<and> set corsHeaders \<subseteq> set (headers (fst (ai_support_chat pf \<lparr>req_method = m, req_json = b1\<rparr>)))
       \<and> set corsHeaders \<subseteq> set (headers (fst (ai_habit_insights pf \<lparr>req_method = m, req_json = b2\<rparr>)))
       \<and> set corsHeaders \<subseteq> set (headers (fst (ai_knowledge_query pf \<lparr>req_method = m, req_json = b3\<rparr>)))
       \<and> set corsHeaders \<subseteq> set (headers (fst (ai_ats_optimizer pf \<lparr>req_method = m, req_json = b4\<rparr>)))
       \<and> set corsHeaders \<subseteq> set (headers (fst (ai_job_assistant pf \<lparr>req_method = m, req_json = b5\<rparr>)))"
proof -
  have pre: "\<And>build mapped extr b. fst (serve_handler build mapped extr pf \<lparr>req_method = ''OPTIONS'', req_json = b\<rparr>)
      = \<lparr>status = 200, headers = corsHeaders, body = None\<rparr>"
    by (simp add: serve_handler_options preflight_response_def)
  have other: "\<And>build mapped extr b.
      set corsHeaders \<subseteq> set (headers (fst (serve_handler build mapped extr pf \<lparr>req_method = m, req_json = b\<rparr>)))"
    using assms by (simp add: serve_handler_cors)
  show ?thesis
    unfolding ai_support_chat_def ai_habit_insights_def ai_knowledge_query_def
      ai_ats_optimizer_def ai_job_assistant_def
    by (simp only: pre other simp_thms) (simp add: corsHeaders_def)
qed

text \<open>Witness of C8: the knowledge query handler on an OPTIONS and on a GET request.\<close>

theorem preflight_and_cors_headers_witness:
  "fst (ai_knowledge_query (reply_platform None (FetchResponse 200 ''{}''))
          \<lparr>req_method = ''OPTIONS'', req_json = Inl (Error ''Unexpected end of JSON input'')\<rparr>)
     = \<lparr>status = 200,
        headers = [(''Access-Control-Allow-Origin'', ''*''),
                   (''Access-Control-Allow-Headers'', ''authorization, x-client-info, apikey, content-type'')],
        body = None\<rparr>
   \<and> set corsHeaders
       \<subseteq> set (headers (fst (ai_knowledge_query (reply_platform None (FetchResponse 200 ''{}''))
          \<lparr>req_method = ''GET'', req_json = Inl (Error ''Unexpected end of JSON input'')\<rparr>)))"
proof -
  have get: "''GET'' \<noteq> ''OPTIONS''"
    by simp
  show ?thesis
    using preflight_and_cors_headers [OF get,
        where pf = "reply_platform None (FetchResponse 200 ''{}'')"
          and ?b3.0 = "Inl (Error ''Unexpected end of JSON input'')"]
    by simp
qed

text \<open>Counterexample to C8 as stated: the pre-flight response has two headers, not three.\<close>

theorem preflight_two_headers_counterexample:
  "length (headers (fst (ai_habit_insights (reply_platform (Some ''key'') (FetchResponse 200 ''{}''))
          \<lparr>req_method = ''OPTIONS'', req_json = Inl (Error ''Unexpected end of JSON input'')\<rparr>))) = 2
   \<and> length (headers (fst (ai_habit_insights (reply_platform (Some ''key'') (FetchResponse 200 ''{}''))
          \<lparr>req_method = ''OPTIONS'', req_json = Inl (Error ''Unexpected end of JSON input'')\<rparr>))) \<noteq> 3"
  by code_simp

lemma meditate_messages:
  "habit_messages meditate_input
   = [chat_entry ''system'' habit_systemPrompt, chat_entry ''user'' meditate_userPrompt]"
  by (simp add: habit_messages_def meditate_input_def meditate_userPrompt_def habitsInfo_of_def
        logsInfo_of_def)

lemma great_job_span: "match_braces great_job_completion = Some great_job_completion"
  by code_simp

lemma meditate_in_user_prompt:
  "js_includes meditate_userPrompt ''Meditate''" "js_includes meditate_userPrompt ''daily''"
  by code_simp+

text \<open>
  Claim C4, as amended. In the habit insights scenario the handler calls the gateway once, with
  the fixed system prompt and a user message that contains \<^verbatim>\<open>Meditate\<close> and \<^verbatim>\<open>daily\<close>; when
  the gateway answers with the completion text of the scenario, the response is 200 with the
  object \<^verbatim>\<open>JSON.parse\<close> reads from that text.
\<close>

theorem habit_insights_scenario:
  fixes pf :: "('n::zero) platform"
  assumes "env_LOVABLE_API_KEY pf = Some k" and "k \<noteq> []"
    and "\<And>call. fetch pf call = FetchResponse st raw" and "response_ok st"
    and "JSON_parse pf raw = Inr data"
    and "completion_content data = Inr (JStr great_job_completion)"
    and "JSON_parse pf great_job_completion = Inr obj"
  shows "ai_habit_insights pf (post_request meditate_input)
           = (json_response 200 obj,
              [gateway_request k
                 [chat_entry ''system'' habit_systemPrompt, chat_entry ''user'' meditate_userPrompt]])
       \<and> js_includes meditate_userPrompt ''Meditate''
       \<and> js_includes meditate_userPrompt ''daily''"
  using assms great_job_span meditate_in_user_prompt
  by (simp add: ai_habit_insights_def serve_handler_success [where st = st and raw = raw and data = data]
        habit_extract_def extract_result_parsed meditate_messages)

text \<open>Witness of C4: the scenario run with the reference reader.\<close>

theorem habit_insights_scenario_witness:
  "ai_habit_insights
     (reply_platform (Some ''key'') (FetchResponse 200 (completion_body great_job_completion)))
     (post_request meditate_input)
   = (\<lparr>status = 200,
       headers = corsHeaders @ [(''Content-Type'', ''application/json'')],
       body = Some great_job_object\<rparr>,
      [gateway_request ''key''
         [chat_entry ''system'' habit_systemPrompt, chat_entry ''user'' meditate_userPrompt]])"
proof -
  let ?pf = "reply_platform (Some ''key'') (FetchResponse 200 (completion_body great_job_completion))"
  let ?data = "JObj [(''choices'', JArr [JObj [(''message'', JObj [(''content'', JStr great_job_completion)])]])] :: int json"
  have key: "env_LOVABLE_API_KEY ?pf = Some ''key''" and nonempty: "''key'' \<noteq> []"
    by (simp_all add: reply_platform_def)
  have gateway: "\<And>call. fetch ?pf call = FetchResponse 200 (completion_body great_job_completion)"
    by (simp add: reply_platform_def)
  have ok: "response_ok 200"
    by (simp add: response_ok_def)
  have "json_parse (completion_body great_job_completion) = Inr ?data"
    by code_simp
  then have data: "JSON_parse ?pf (completion_body great_job_completion) = Inr ?data"
    by (simp add: reply_platform_def)
  have content: "completion_content ?data = Inr (JStr great_job_completion)"
    by code_simp
  have "json_parse great_job_completion = Inr great_job_object"
    by code_simp
  then have obj: "JSON_parse ?pf great_job_completion = Inr great_job_object"
    by (simp add: reply_platform_def)
  show ?thesis
    using habit_insights_scenario [OF key nonempty gateway ok data content obj]
    by (simp add: json_response_def)
qed

text \<open>
  Counterexample to C4 as stated: the system prompt of the one call contains neither
  \<^verbatim>\<open>Meditate\<close> nor \<^verbatim>\<open>daily\<close>; the habits are in the user message.
\<close>

theorem system_prompt_without_habits_counterexample:
  "snd (ai_habit_insights
          (reply_platform (Some ''key'') (FetchResponse 200 (completion_body great_job_completion)))
          (post_request meditate_input))
   = [gateway_request ''key''
        [chat_entry ''system'' habit_systemPrompt, chat_entry ''user'' meditate_userPrompt]]
   \<and> \<not> js_includes habit_systemPrompt ''Meditate''
   \<and> \<not> js_includes habit_systemPrompt ''daily''"
  by code_simp

lemma completion_content_falsy:
  assumes "content_chain data = Inr v" and "js_falsy v"
  shows "completion_content data = Inr (JStr [])"
  using assms by (simp add: completion_content_def or_empty_def)

lemma match_braces_empty: "match_braces [] = None"
  by (simp add: match_braces_def)

lemma serve_handler_body_not_json:
  assumes "env_LOVABLE_API_KEY pf = Some k" and "k \<noteq> []"
    and "fetch pf (gateway_request k (build inp)) = FetchResponse st raw" and "response_ok st"
    and "JSON_parse pf raw = Inl e"
  shows "serve_handler build mapped extr pf (post_request inp)
         = (error_response 500 (error_message e), [gateway_request k (build inp)])"
  using assms handler_try_body_not_json [of "post_request inp" inp pf k build st raw e mapped extr]
  by (simp add: serve_handler_thrown post_request_simps)

lemma serve_handler_content_error:
  assumes "env_LOVABLE_API_KEY pf = Some k" and "k \<noteq> []"
    and "fetch pf (gateway_request k (build inp)) = FetchResponse st raw" and "response_ok st"
    and "JSON_parse pf raw = Inr data" and "completion_content data = Inl e"
  shows "serve_handler build mapped extr pf (post_request inp)
         = (error_response 500 (error_message e), [gateway_request k (build inp)])"
  using assms handler_try_content_error [of "post_request inp" inp pf k build st raw data e mapped extr]
  by (simp add: serve_handler_thrown post_request_simps)

lemma completion_content_null:
  \<open>completion_content JNull = Inl (Error ''Cannot read properties of null (reading 'choices')'')\<close>
  by (simp add: completion_content_def content_chain_def)

lemma content_chain_not_null:
  assumes "content_chain data = Inr v"
  shows "data \<noteq> JNull"
  using assms by (auto simp: content_chain_def)

text \<open>The fallback half of C10: a parsed body whose content is missing or falsy.\<close>

lemma falsy_content_fallback:
  fixes pf :: "('n::{zero,numeral}) platform"
  assumes "env_LOVABLE_API_KEY pf = Some k" and "k \<noteq> []"
    and "\<And>call. fetch pf call = FetchResponse st raw" and "response_ok st"
    and "JSON_parse pf raw = Inr data"
    and "content_chain data = Inr v" and "js_falsy v"
  shows "fst (ai_support_chat pf (post_request i1))
           = json_response 200 (JObj [(''reply'', JStr []), (''shouldEscalate'', JBool False)])
       \<and> fst (ai_habit_insights pf (post_request i2))
           = json_response 200
               (JObj [(''insights'', JArr [JObj [(''type'', JStr ''suggestion''), (''message'', JStr [])]])])
       \<and> fst (ai_knowledge_query pf (post_request i3))
           = json_response 200
               (JObj [(''answer'', JStr []), (''citations'', JArr []), (''confidence'', JStr ''medium'')])
       \<and> fst (ai_job_assistant pf (post_request i5))
           = json_response 200
               (JObj [(''bullets'', JArr []), (''coverLetter'', JStr []), (''summary'', JStr [])])
       \<and> status (fst (ai_ats_optimizer pf (post_request i4))) = 200
       \<and> (\<exists>more. body (fst (ai_ats_optimizer pf (post_request i4)))
                    = Some (JObj ([(''score'', JNum 50), (''suggestions'', JArr [])] @ more)))"
proof -
  have content: "completion_content data = Inr (JStr [])"
    using assms(6,7) by (rule completion_content_falsy)
  have ats: "fst (ai_ats_optimizer pf (post_request i4))
      = json_response 200 (JObj [(''score'', JNum 50), (''suggestions'', JArr [])])"
    using assms(1-5) content
    by (simp add: ai_ats_optimizer_def serve_handler_success [where st = st and raw = raw and data = data]
          ats_extract_def extract_result_no_match match_braces_empty ats_no_match_def)
  have ats_body: "\<exists>more. body (fst (ai_ats_optimizer pf (post_request i4)))
      = Some (JObj ([(''score'', JNum 50), (''suggestions'', JArr [])] @ more))"
    unfolding ats by (rule exI [of _ "[]"]) (simp add: json_response_def)
  have ats_status: "status (fst (ai_ats_optimizer pf (post_request i4))) = 200"
    unfolding ats by (simp add: json_response_def)
  have others: "fst (ai_support_chat pf (post_request i1))
           = json_response 200 (JObj [(''reply'', JStr []), (''shouldEscalate'', JBool False)])
       \<and> fst (ai_habit_insights pf (post_request i2))
           = json_response 200
               (JObj [(''insights'', JArr [JObj [(''type'', JStr ''suggestion''), (''message'', JStr [])]])])
       \<and> fst (ai_knowledge_query pf (post_request i3))
           = json_response 200
               (JObj [(''answer'', JStr []), (''citations'', JArr []), (''confidence'', JStr ''medium'')])
       \<and> fst (ai_job_assistant pf (post_request i5))
           = json_response 200
               (JObj [(''bullets'', JArr []), (''coverLetter'', JStr []), (''summary'', JStr [])])"
    using assms(1-5) content
    by (simp add: ai_support_chat_def ai_habit_insights_def ai_knowledge_query_def ai_job_assistant_def
          serve_handler_success [where st = st and raw = raw and data = data]
          support_extract_def habit_extract_def knowledge_extract_def job_extract_def
          extract_result_no_match match_braces_empty
          support_fallback_def habit_fallback_def knowledge_fallback_def job_fallback_def)
  from others ats_status ats_body show ?thesis
    by blast
qed

text \<open>The 500 half of C10: a success body that is not JSON, or is \<^verbatim>\<open>null\<close>.\<close>

lemma unreadable_success_body_500:
  fixes pf :: "('n::{zero,numeral}) platform"
  assumes "env_LOVABLE_API_KEY pf = Some k" and "k \<noteq> []"
    and "\<And>call. fetch pf call = FetchResponse st raw" and "response_ok st"
    and "JSON_parse pf raw = Inl e"
  shows "fst (ai_support_chat pf (post_request i1)) = error_response 500 (error_message e)
       \<and> fst (ai_habit_insights pf (post_request i2)) = error_response 500 (error_message e)
       \<and> fst (ai_knowledge_query pf (post_request i3)) = error_response 500 (error_message e)
       \<and> fst (ai_ats_optimizer pf (post_request i4)) = error_response 500 (error_message e)
       \<and> fst (ai_job_assistant pf (post_request i5)) = error_response 500 (error_message e)"
  using assms
  by (simp add: ai_support_chat_def ai_habit_insights_def ai_knowledge_query_def
        ai_ats_optimizer_def ai_job_assistant_def
        serve_handler_body_not_json [where st = st and raw = raw and e = e])

lemma null_success_body_500:
  fixes pf :: "('n::{zero,numeral}) platform"
  assumes "env_LOVABLE_API_KEY pf = Some k" and "k \<noteq> []"
    and "\<And>call. fetch pf call = FetchResponse st raw" and "response_ok st"
    and "JSON_parse pf raw = Inr JNull"
  shows \<open>fst (ai_support_chat pf (post_request i1))
           = error_response 500 ''Cannot read properties of null (reading 'choices')''
       \<and> fst (ai_habit_insights pf (post_request i2))
           = error_response 500 ''Cannot read properties of null (reading 'choices')''
       \<and> fst (ai_knowledge_query pf (post_request i3))
           = error_response 500 ''Cannot read properties of null (reading 'choices')''
       \<and> fst (ai_ats_optimizer pf (post_request i4))
           = error_response 500 ''Cannot read properties of null (reading 'choices')''
       \<and> fst (ai_job_assistant pf (post_request i5))
           = error_response 500 ''Cannot read properties of null (reading 'choices')''\<close>
  using assms completion_content_null [where 'a = 'n]
  by (simp add: ai_support_chat_def ai_habit_insights_def ai_knowledge_query_def
        ai_ats_optimizer_def ai_job_assistant_def
        serve_handler_content_error [where st = st and raw = raw and data = JNull
          and e = \<open>Error ''Cannot read properties of null (reading 'choices')''\<close>])

text \<open>
  Claim C10, as amended. For every handler, when the credential is set and the gateway answers
  with a status in 200..299 and the body \<open>raw\<close>:
  \<^item> if \<open>raw\<close> parses to a value other than \<^verbatim>\<open>null\<close> whose
    \<^verbatim>\<open>choices?.[0]?.message?.content\<close> is missing or falsy, the completion is the empty string
    and the response is 200 with the handler's no-match object; in the support chat, habit
    insights, knowledge query and job assistant its text field is the empty string, and of the
    ATS optimizer's object the theorem states the score and the suggestions only;
  \<^item> if \<^verbatim>\<open>JSON.parse\<close> throws on \<open>raw\<close>, the response is 500 with the message of that error;
  \<^item> if \<open>raw\<close> parses to \<^verbatim>\<open>null\<close>, the response is 500 with the message of the TypeError
    that reading \<^verbatim>\<open>choices\<close> of \<^verbatim>\<open>null\<close> throws.
\<close>

theorem missing_content_gives_fallback:
  fixes pf :: "('n::{zero,numeral}) platform"
  assumes "env_LOVABLE_API_KEY pf = Some k" and "k \<noteq> []"
    and "\<And>call. fetch pf call = FetchResponse st raw" and "response_ok st"
  shows \<open>(JSON_parse pf raw = Inr data \<and> content_chain data = Inr v \<and> js_falsy v \<longrightarrow>
          data \<noteq> JNull
        \<and> fst (ai_support_chat pf (post_request i1))
              = json_response 200 (JObj [(''reply'', JStr []), (''shouldEscalate'', JBool False)])
          \<and> fst (ai_habit_insights pf (post_request i2))
              = json_response 200
                  (JObj [(''insights'', JArr [JObj [(''type'', JStr ''suggestion''), (''message'', JStr [])]])])
          \<and> fst (ai_knowledge_query pf (post_request i3))
              = json_response 200
                  (JObj [(''answer'', JStr []), (''citations'', JArr []), (''confidence'', JStr ''medium'')])
          \<and> fst (ai_job_assistant pf (post_request i5))
              = json_response 200
                  (JObj [(''bullets'', JArr []), (''coverLetter'', JStr []), (''summary'', JStr [])])
          \<and> status (fst (ai_ats_optimizer pf (post_request i4))) = 200
          \<and> (\<exists>more. body (fst (ai_ats_optimizer pf (post_request i4)))
                       = Some (JObj ([(''score'', JNum 50), (''suggestions'', JArr [])] @ more))))
     \<and> (JSON_parse pf raw = Inl e \<longrightarrow>
          fst (ai_support_chat pf (post_request i1)) = error_response 500 (error_message e)
        \<and> fst (ai_habit_insights pf (post_request i2)) = error_response 500 (error_message e)
        \<and> fst (ai_knowledge_query pf (post_request i3)) = error_response 500 (error_message e)
        \<and> fst (ai_ats_optimizer pf (post_request i4)) = error_response 500 (error_message e)
        \<and> fst (ai_job_assistant pf (post_request i5)) = error_response 500 (error_message e))
     \<and> (JSON_parse pf raw = Inr JNull \<longrightarrow>
          fst (ai_support_chat pf (post_request i1))
            = error_response 500 ''Cannot read properties of null (reading 'choices')''
        \<and> fst (ai_habit_insights pf (post_request i2))
            = error_response 500 ''Cannot read properties of null (reading 'choices')''
        \<and> fst (ai_knowledge_query pf (post_request i3))
            = error_response 500 ''Cannot read properties of null (reading 'choices')''
        \<and> fst (ai_ats_optimizer pf (post_request i4))
            = error_response 500 ''Cannot read properties of null (reading 'choices')''
        \<and> fst (ai_job_assistant pf (post_request i5))
            = error_response 500 ''Cannot read properties of null (reading 'choices')'')\<close>
proof -
  have falsy: \<open>JSON_parse pf raw = Inr data \<and> content_chain data = Inr v \<and> js_falsy v \<longrightarrow>
          data \<noteq> JNull
        \<and> fst (ai_support_chat pf (post_request i1))
              = json_response 200 (JObj [(''reply'', JStr []), (''shouldEscalate'', JBool False)])
          \<and> fst (ai_habit_insights pf (post_request i2))
              = json_response 200
                  (JObj [(''insights'', JArr [JObj [(''type'', JStr ''suggestion''), (''message'', JStr [])]])])
          \<and> fst (ai_knowledge_query pf (post_request i3))
              = json_response 200
                  (JObj [(''answer'', JStr []), (''citations'', JArr []), (''confidence'', JStr ''medium'')])
          \<and> fst (ai_job_assistant pf (post_request i5))
              = json_response 200
                  (JObj [(''bullets'', JArr []), (''coverLetter'', JStr []), (''summary'', JStr [])])
          \<and> status (fst (ai_ats_optimizer pf (post_request i4))) = 200
          \<and> (\<exists>more. body (fst (ai_ats_optimizer pf (post_request i4)))
                       = Some (JObj ([(''score'', JNum 50), (''suggestions'', JArr [])] @ more)))\<close>
  proof (rule impI)
    assume parsed: "JSON_parse pf raw = Inr data \<and> content_chain data = Inr v \<and> js_falsy v"
    then have p1: "JSON_parse pf raw = Inr data" and p2: "content_chain data = Inr v" and p3: "js_falsy v"
      by simp_all
    show \<open>data \<noteq> JNull
        \<and> fst (ai_support_chat pf (post_request i1))
              = json_response 200 (JObj [(''reply'', JStr []), (''shouldEscalate'', JBool False)])
          \<and> fst (ai_habit_insights pf (post_request i2))
              = json_response 200
                  (JObj [(''insights'', JArr [JObj [(''type'', JStr ''suggestion''), (''message'', JStr [])]])])
          \<and> fst (ai_knowledge_query pf (post_request i3))
              = json_response 200
                  (JObj [(''answer'', JStr []), (''citations'', JArr []), (''confidence'', JStr ''medium'')])
          \<and> fst (ai_job_assistant pf (post_request i5))
              = json_response 200
                  (JObj [(''bullets'', JArr []), (''coverLetter'', JStr []), (''summary'', JStr [])])
          \<and> status (fst (ai_ats_optimizer pf (post_request i4))) = 200
          \<and> (\<exists>more. body (fst (ai_ats_optimizer pf (post_request i4)))
                       = Some (JObj ([(''score'', JNum 50), (''suggestions'', JArr [])] @ more)))\<close>
      by (rule conjI [OF content_chain_not_null [OF p2] falsy_content_fallback [OF assms p1 p2 p3]])
  qed
  have not_json: \<open>JSON_parse pf raw = Inl e \<longrightarrow>
          fst (ai_support_chat pf (post_request i1)) = error_response 500 (error_message e)
        \<and> fst (ai_habit_insights pf (post_request i2)) = error_response 500 (error_message e)
        \<and> fst (ai_knowledge_query pf (post_request i3)) = error_response 500 (error_message e)
        \<and> fst (ai_ats_optimizer pf (post_request i4)) = error_response 500 (error_message e)
        \<and> fst (ai_job_assistant pf (post_request i5)) = error_response 500 (error_message e)\<close>
  proof (rule impI)
    assume thrown: "JSON_parse pf raw = Inl e"
    show \<open>fst (ai_support_chat pf (post_request i1)) = error_response 500 (error_message e)
        \<and> fst (ai_habit_insights pf (post_request i2)) = error_response 500 (error_message e)
        \<and> fst (ai_knowledge_query pf (post_request i3)) = error_response 500 (error_message e)
        \<and> fst (ai_ats_optimizer pf (post_request i4)) = error_response 500 (error_message e)
        \<and> fst (ai_job_assistant pf (post_request i5)) = error_response 500 (error_message e)\<close>
      by (rule unreadable_success_body_500 [OF assms thrown])
  qed
  have null: \<open>JSON_parse pf raw = Inr JNull \<longrightarrow>
          fst (ai_support_chat pf (post_request i1))
            = error_response 500 ''Cannot read properties of null (reading 'choices')''
        \<and> fst (ai_habit_insights pf (post_request i2))
            = error_response 500 ''Cannot read properties of null (reading 'choices')''
        \<and> fst (ai_knowledge_query pf (post_request i3))
            = error_response 500 ''Cannot read properties of null (reading 'choices')''
        \<and> fst (ai_ats_optimizer pf (post_request i4))
            = error_response 500 ''Cannot read properties of null (reading 'choices')''
        \<and> fst (ai_job_assistant pf (post_request i5))
            = error_response 500 ''Cannot read properties of null (reading 'choices')''\<close>
  proof (rule impI)
    assume parsed: "JSON_parse pf raw = Inr JNull"
    show \<open>fst (ai_support_chat pf (post_request i1))
            = error_response 500 ''Cannot read properties of null (reading 'choices')''
        \<and> fst (ai_habit_insights pf (post_request i2))
            = error_response 500 ''Cannot read properties of null (reading 'choices')''
        \<and> fst (ai_knowledge_query pf (post_request i3))
            = error_response 500 ''Cannot read properties of null (reading 'choices')''
        \<and> fst (ai_ats_optimizer pf (post_request i4))
            = error_response 500 ''Cannot read properties of null (reading 'choices')''
        \<and> fst (ai_job_assistant pf (post_request i5))
            = error_response 500 ''Cannot read properties of null (reading 'choices')''\<close>
      by (rule null_success_body_500 [OF assms parsed])
  qed
  show ?thesis
    by (rule conjI [OF falsy conjI [OF not_json null]])
qed

text \<open>
  Witness of C10, one run per case: a body with an empty \<^verbatim>\<open>choices\<close> array at the job
  assistant, a body that is not JSON at the knowledge query, and the body \<^verbatim>\<open>null\<close> at the ATS
  optimizer.
\<close>

theorem missing_content_gives_fallback_witness:
  \<open>json_parse ''{"choices":[]}'' = Inr (JObj [(''choices'', JArr [])])
   \<and> content_chain (JObj [(''choices'', JArr [])] :: int json) = Inr None
   \<and> fst (ai_job_assistant
            (reply_platform (Some ''key'') (FetchResponse 200 ''{"choices":[]}''))
            (post_request \<lparr>job_resumeContent = ''Built things.'', jobDescription = ''Build things.'', settings = None\<rparr>))
       = \<lparr>status = 200,
          headers = corsHeaders @ [(''Content-Type'', ''application/json'')],
          body = Some (JObj [(''bullets'', JArr []), (''coverLetter'', JStr []), (''summary'', JStr [])])\<rparr>
   \<and> json_parse ''Service unavailable'' = Inl (Error ''Unexpected token in JSON'')
   \<and> fst (ai_knowledge_query
            (reply_platform (Some ''key'') (FetchResponse 200 ''Service unavailable''))
            (post_request \<lparr>query = ''What is new?'', documents = None\<rparr>))
       = \<lparr>status = 500,
          headers = corsHeaders @ [(''Content-Type'', ''application/json'')],
          body = Some (JObj [(''error'', JStr ''Unexpected token in JSON'')])\<rparr>
   \<and> json_parse ''null'' = Inr JNull
   \<and> fst (ai_ats_optimizer
            (reply_platform (Some ''key'') (FetchResponse 200 ''null''))
            (post_request \<lparr>ats_resumeContent = ''Built things.'', targetRole = ''Engineer''\<rparr>))
       = \<lparr>status = 500,
          headers = corsHeaders @ [(''Content-Type'', ''application/json'')],
          body = Some (JObj [(''error'', JStr ''Cannot read properties of null (reading 'choices')'')])\<rparr>\<close>
proof -
  have nonempty: "''key'' \<noteq> []" and ok: "response_ok 200"
    by (simp_all add: response_ok_def)
  have key: "\<And>r. env_LOVABLE_API_KEY (reply_platform (Some ''key'') r) = Some ''key''"
    and gateway: "\<And>r call. fetch (reply_platform (Some ''key'') r) call = r"
    and reader: "\<And>r. JSON_parse (reply_platform (Some ''key'') r) = json_parse"
    by (simp_all add: reply_platform_def)
  let ?data = "JObj [(''choices'', JArr [])] :: int json"
  have read: \<open>json_parse ''{"choices":[]}'' = Inr ?data\<close>
    by code_simp
  have chain: "content_chain ?data = Inr None"
    by (simp add: content_chain_def)
  have falsy: "js_falsy (None :: int json option)"
    by simp
  have rejected: "json_parse ''Service unavailable'' = Inl (Error ''Unexpected token in JSON'')"
    by code_simp
  have null: "json_parse ''null'' = Inr JNull"
    by code_simp
  have fallback: \<open>fst (ai_job_assistant
            (reply_platform (Some ''key'') (FetchResponse 200 ''{"choices":[]}''))
            (post_request \<lparr>job_resumeContent = ''Built things.'', jobDescription = ''Build things.'', settings = None\<rparr>))
       = \<lparr>status = 200,
          headers = corsHeaders @ [(''Content-Type'', ''application/json'')],
          body = Some (JObj [(''bullets'', JArr []), (''coverLetter'', JStr []), (''summary'', JStr [])])\<rparr>\<close>
    using read chain falsy
      missing_content_gives_fallback [OF key nonempty gateway ok,
        where data = ?data and v = None
          and ?i5.0 = "\<lparr>job_resumeContent = ''Built things.'', jobDescription = ''Build things.'', settings = None\<rparr>"]
    by (simp add: reader json_response_def)
  have not_json: "fst (ai_knowledge_query
            (reply_platform (Some ''key'') (FetchResponse 200 ''Service unavailable''))
            (post_request \<lparr>query = ''What is new?'', documents = None\<rparr>))
       = \<lparr>status = 500,
          headers = corsHeaders @ [(''Content-Type'', ''application/json'')],
          body = Some (JObj [(''error'', JStr ''Unexpected token in JSON'')])\<rparr>"
    using rejected
      missing_content_gives_fallback [OF key nonempty gateway ok,
        where e = "Error ''Unexpected token in JSON''"
          and ?i3.0 = "\<lparr>query = ''What is new?'', documents = None\<rparr>"]
    by (simp add: reader error_response_def json_response_def)
  have null_body: \<open>fst (ai_ats_optimizer
            (reply_platform (Some ''key'') (FetchResponse 200 ''null''))
            (post_request \<lparr>ats_resumeContent = ''Built things.'', targetRole = ''Engineer''\<rparr>))
       = \<lparr>status = 500,
          headers = corsHeaders @ [(''Content-Type'', ''application/json'')],
          body = Some (JObj [(''error'', JStr ''Cannot read properties of null (reading 'choices')'')])\<rparr>\<close>
    using null
      missing_content_gives_fallback [OF key nonempty gateway ok,
        where ?i4.0 = "\<lparr>ats_resumeContent = ''Built things.'', targetRole = ''Engineer''\<rparr>"]
    by (simp add: reader error_response_def json_response_def)
  from read chain fallback rejected not_json null null_body show ?thesis
    by simp
qed

text \<open>
  Counterexample to C10 as stated: a success status with the body \<^verbatim>\<open>null\<close>, or with a body
  that is not JSON, is answered 500.
\<close>

theorem malformed_success_body_counterexample:
  "status (fst (ai_support_chat
                  (reply_platform (Some ''key'') (FetchResponse 200 ''null''))
                  (post_request \<lparr>message = ''Hello'', conversationHistory = None, knowledgeBase = None\<rparr>))) = 500
   \<and> status (fst (ai_support_chat
                  (reply_platform (Some ''key'') (FetchResponse 200 ''Service unavailable''))
                  (post_request \<lparr>message = ''Hello'', conversationHistory = None, knowledgeBase = None\<rparr>))) = 500"
  by code_simp

section \<open>Claim about the habit tracker screen\<close>

lemma toggle_first_effect:
  "\<exists>w rest. fst (toggleHabit st habitId today reply) = w # rest \<and> is_db_write w"
  by (simp add: toggleHabit_def Let_def split: option.splits)

text \<open>
  Claim C9, as amended. \<^verbatim>\<open>toggleHabit\<close> sends the database write first and touches the local
  logs only after it has resolved: when the write fails, the effects are the write and one
  error toast, \<^verbatim>\<open>setLogs\<close> is not called and the state is the one before the call. There is
  no optimistic update and nothing to revert.
\<close>

theorem toggle_writes_before_state:
  assumes "reply_error reply = Some e"
  shows "snd (toggleHabit st habitId today reply) = st
       \<and> filter is_set_logs (fst (toggleHabit st habitId today reply)) = []
       \<and> (\<exists>w title text. fst (toggleHabit st habitId today reply) = [w, Toast title text True] \<and> is_db_write w)
       \<and> (\<exists>w rest. fst (toggleHabit st habitId today any_reply) = w # rest \<and> is_db_write w)"
proof -
  have failure: "snd (toggleHabit st habitId today reply) = st
       \<and> filter is_set_logs (fst (toggleHabit st habitId today reply)) = []
       \<and> (\<exists>w title text. fst (toggleHabit st habitId today reply) = [w, Toast title text True] \<and> is_db_write w)"
    using assms
    by (cases "find (\<lambda>l. hl_habit_id l = habitId \<and> hl_logged_at l = today) (tracker_logs st)")
       (simp_all add: toggleHabit_def Let_def)
  with toggle_first_effect [of st habitId today any_reply] show ?thesis
    by blast
qed

text \<open>Witness of C9: a first toggle of the day (an insert) that the database refuses.\<close>

theorem toggle_writes_before_state_witness:
  "toggleHabit
     \<lparr>tracker_logs = [\<lparr>hl_id = ''log-1'', hl_habit_id = ''habit-1'', hl_completed = False,
                        hl_notes = None, hl_logged_at = ''2024-01-01''\<rparr>],
      tracker_habits = [\<lparr>hb_id = ''habit-1'', hb_name = ''Meditate''\<rparr>],
      tracker_user_id = Some ''user-1''\<rparr>
     ''habit-2'' ''2024-01-01'' \<lparr>reply_data = None, reply_error = Some ''permission denied''\<rparr>
   = ([DbInsert ''habit-2'' (Some ''user-1'') True ''2024-01-01'', Toast ''Error'' ''Could not log habit'' True],
      \<lparr>tracker_logs = [\<lparr>hl_id = ''log-1'', hl_habit_id = ''habit-1'', hl_completed = False,
                        hl_notes = None, hl_logged_at = ''2024-01-01''\<rparr>],
      tracker_habits = [\<lparr>hb_id = ''habit-1'', hb_name = ''Meditate''\<rparr>],
      tracker_user_id = Some ''user-1''\<rparr>)"
proof -
  have failed: "reply_error \<lparr>reply_data = None, reply_error = Some ''permission denied''\<rparr> = Some ''permission denied''"
    by simp
  show ?thesis
    using toggle_writes_before_state [OF failed, of
        "\<lparr>tracker_logs = [\<lparr>hl_id = ''log-1'', hl_habit_id = ''habit-1'', hl_completed = False,
                        hl_notes = None, hl_logged_at = ''2024-01-01''\<rparr>],
      tracker_habits = [\<lparr>hb_id = ''habit-1'', hb_name = ''Meditate''\<rparr>],
      tracker_user_id = Some ''user-1''\<rparr>" "''habit-2''" "''2024-01-01''"]
    by (simp add: toggleHabit_def)
qed

text \<open>
  Counterexample to C9 as stated: toggling a habit that has a log today, with a failing update,
  leaves the log as it was; no local update happened before the write resolved.
\<close>

theorem toggle_not_optimistic_counterexample:
  "toggleHabit
     \<lparr>tracker_logs = [\<lparr>hl_id = ''log-1'', hl_habit_id = ''habit-1'', hl_completed = False,
                        hl_notes = None, hl_logged_at = ''2024-01-01''\<rparr>],
      tracker_habits = [\<lparr>hb_id = ''habit-1'', hb_name = ''Meditate''\<rparr>],
      tracker_user_id = Some ''user-1''\<rparr>
     ''habit-1'' ''2024-01-01'' \<lparr>reply_data = None, reply_error = Some ''permission denied''\<rparr>
   = ([DbUpdate ''log-1'' True, Toast ''Error'' ''Could not update habit'' True],
      \<lparr>tracker_logs = [\<lparr>hl_id = ''log-1'', hl_habit_id = ''habit-1'', hl_completed = False,
                        hl_notes = None, hl_logged_at = ''2024-01-01''\<rparr>],
      tracker_habits = [\<lparr>hb_id = ''habit-1'', hb_name = ''Meditate''\<rparr>],
      tracker_user_id = Some ''user-1''\<rparr>)"
  by code_simp

end
